theory Spec2Isabelle
  imports Complex_Main "HOL-Library.Word"
begin

section \<open>Python values\<close>

text \<open>
  A Python \<open>str\<close> is a sequence of Unicode code points, a \<open>bytes\<close> object a sequence of
  octets. String literals of the source are written \<open>py ''...''\<close>.
\<close>

type_synonym pystr = "nat list"
type_synonym byte = "8 word"

definition py :: "string \<Rightarrow> pystr" where
  "py s = map of_char s"

text \<open>Exceptions that the modelled code raises or lets through.\<close>

datatype error =
    ValueError string
  | TypeError
  | OverflowError
  | AttributeError
  | KeyError
  | UnicodeDecodeError
  | ExternalError string

section \<open>Built-in string operations used by the chunker\<close>

text \<open>
  \<open>bytes.decode('utf-8')\<close> in strict mode: shortest-form sequences only, no surrogates,
  nothing above U+10FFFF. \<open>None\<close> stands for \<open>UnicodeDecodeError\<close>.
\<close>

definition is_cont :: "byte \<Rightarrow> bool" where
  "is_cont b = (0x80 \<le> b \<and> b \<le> 0xBF)"

definition cont_bits :: "byte \<Rightarrow> nat" where
  "cont_bits b = unat b - 0x80"

definition second_ok3 :: "byte \<Rightarrow> byte \<Rightarrow> bool" where
  "second_ok3 b c =
     (if b = 0xE0 then 0xA0 \<le> c \<and> c \<le> 0xBF
      else if b = 0xED then 0x80 \<le> c \<and> c \<le> 0x9F
      else is_cont c)"

definition second_ok4 :: "byte \<Rightarrow> byte \<Rightarrow> bool" where
  "second_ok4 b c =
     (if b = 0xF0 then 0x90 \<le> c \<and> c \<le> 0xBF
      else if b = 0xF4 then 0x80 \<le> c \<and> c \<le> 0x8F
      else is_cont c)"

fun utf8_decode :: "byte list \<Rightarrow> pystr option" where
  "utf8_decode [] = Some []"
| "utf8_decode (b # bs) =
     (if b < 0x80 then map_option (Cons (unat b)) (utf8_decode bs)
      else if 0xC2 \<le> b \<and> b \<le> 0xDF then
        (case bs of
           c1 # r \<Rightarrow>
             if is_cont c1
             then map_option (Cons ((unat b - 0xC0) * 64 + cont_bits c1)) (utf8_decode r)
             else None
         | _ \<Rightarrow> None)
      else if 0xE0 \<le> b \<and> b \<le> 0xEF then
        (case bs of
           c1 # c2 # r \<Rightarrow>
             if second_ok3 b c1 \<and> is_cont c2
             then map_option
                    (Cons ((unat b - 0xE0) * 4096 + cont_bits c1 * 64 + cont_bits c2))
                    (utf8_decode r)
             else None
         | _ \<Rightarrow> None)
      else if 0xF0 \<le> b \<and> b \<le> 0xF4 then
        (case bs of
           c1 # c2 # c3 # r \<Rightarrow>
             if second_ok4 b c1 \<and> is_cont c2 \<and> is_cont c3
             then map_option
                    (Cons ((unat b - 0xF0) * 262144 + cont_bits c1 * 4096
                           + cont_bits c2 * 64 + cont_bits c3))
                    (utf8_decode r)
             else None
         | _ \<Rightarrow> None)
      else None)"

text \<open>
  \<open>str.isspace\<close> for one code point: the characters \<open>str.strip()\<close> removes when it is
  called without an argument.
\<close>

definition is_space :: "nat \<Rightarrow> bool" where
  "is_space c =
     ((0x09 \<le> c \<and> c \<le> 0x0D) \<or> (0x1C \<le> c \<and> c \<le> 0x20) \<or> c = 0x85 \<or> c = 0xA0
      \<or> c = 0x1680 \<or> (0x2000 \<le> c \<and> c \<le> 0x200A) \<or> c = 0x2028 \<or> c = 0x2029
      \<or> c = 0x202F \<or> c = 0x205F \<or> c = 0x3000)"

definition py_strip :: "pystr \<Rightarrow> pystr" where
  "py_strip s = rev (dropWhile is_space (rev (dropWhile is_space s)))"

text \<open>
  \<open>text.split('\n\n')\<close>: a left-to-right scan for non-overlapping occurrences of two
  consecutive line feeds (code point 10); \<open>cur\<close> holds the current piece, reversed.
\<close>

fun split_scan :: "pystr \<Rightarrow> pystr \<Rightarrow> pystr list" where
  "split_scan cur [] = [rev cur]"
| "split_scan cur [a] = [rev (a # cur)]"
| "split_scan cur (a # b # r) =
     (if a = 10 \<and> b = 10 then rev cur # split_scan [] r
      else split_scan (a # cur) (b # r))"

definition py_split_nn :: "pystr \<Rightarrow> pystr list" where
  "py_split_nn text = split_scan [] text"

text \<open>The text contains two consecutive line feeds somewhere.\<close>

fun has_nn :: "pystr \<Rightarrow> bool" where
  "has_nn (a # b # r) = ((a = 10 \<and> b = 10) \<or> has_nn (b # r))"
| "has_nn _ = False"

text \<open>Empty or made of whitespace only.\<close>

definition blank :: "pystr \<Rightarrow> bool" where
  "blank s = list_all is_space s"

section \<open>The chunker: \<open>parse_text\<close> of \<open>publisher/celery_app.py\<close>\<close>

definition parse_text :: "byte list \<Rightarrow> error + pystr list" where
  "parse_text file_content =
     (case utf8_decode file_content of
        None \<Rightarrow> Inl UnicodeDecodeError
      | Some text \<Rightarrow>
          Inr (map py_strip (filter (\<lambda>p. py_strip p \<noteq> []) (py_split_nn text))))"


section \<open>JSON values, points and tasks\<close>

text \<open>
  Task arguments, request bodies and payloads are JSON values. A float is given by its
  value, or is one of the three non-finite floats that \<open>json.loads\<close> accepts. A \<open>dict\<close> is
  an association list, read with \<open>map_of\<close>.
\<close>

datatype pyfloat = Fin real | PosInf | NegInf | NaN

datatype pyval =
    PNone
  | PBool bool
  | PInt int
  | PFloat pyfloat
  | PStr pystr
  | PList "pyval list"
  | PDict "(pystr \<times> pyval) list"

type_synonym pydict = "(pystr \<times> pyval) list"

text \<open>\<open>d.get(k, default)\<close>\<close>

definition dict_get :: "pydict \<Rightarrow> pystr \<Rightarrow> pyval \<Rightarrow> pyval" where
  "dict_get d k dflt = (case map_of d k of None \<Rightarrow> dflt | Some v \<Rightarrow> v)"

text \<open>\<open>isinstance(x, str)\<close>\<close>

fun is_str :: "pyval \<Rightarrow> bool" where
  "is_str (PStr s) = True"
| "is_str _ = False"

text \<open>Whether \<open>len(x)\<close> returns; on the other JSON values it raises \<open>TypeError\<close>.\<close>

fun has_len :: "pyval \<Rightarrow> bool" where
  "has_len (PStr s) = True"
| "has_len (PList l) = True"
| "has_len (PDict d) = True"
| "has_len _ = False"

text \<open>Truth value of a JSON value, as \<open>not data\<close> tests it.\<close>

fun truthy :: "pyval \<Rightarrow> bool" where
  "truthy PNone = False"
| "truthy (PBool b) = b"
| "truthy (PInt i) = (i \<noteq> 0)"
| "truthy (PFloat f) = (f \<noteq> Fin 0)"
| "truthy (PStr s) = (s \<noteq> [])"
| "truthy (PList l) = (l \<noteq> [])"
| "truthy (PDict d) = (d \<noteq> [])"

record point =
  point_id :: pyval
  vector :: "real list"
  payload :: pydict

record task =
  task_doc_id :: pyval
  task_chunk_id :: pyval
  task_text :: pyval

section \<open>The vector store\<close>

text \<open>
  The vector store is the external Qdrant service, reached through its client; its code is
  not part of the repository. A collection is modelled as the list of its points.
\<close>

text \<open>
  Modelled from the spec: \<open>qdrant_client.upsert\<close>, which is not under src/. Spec 4.3:
  "\<open>upsert(point)\<close>: writes or overwrites a Point by \<open>id\<close>".
\<close>

definition qdrant_upsert :: "point \<Rightarrow> point list \<Rightarrow> point list" where
  "qdrant_upsert p coll = filter (\<lambda>q. point_id q \<noteq> point_id p) coll @ [p]"

text \<open>
  Modelled from the spec: the filter of lines 96 to 103, evaluated by Qdrant. Spec 6:
  "filtered lookup by exact-match on \<open>payload.doc_id\<close>".
\<close>

definition doc_points :: "pystr \<Rightarrow> point list \<Rightarrow> point list" where
  "doc_points doc_id coll =
     filter (\<lambda>q. map_of (payload q) (py ''doc_id'') = Some (PStr doc_id)) coll"

text \<open>
  Modelled from the spec: \<open>qdrant_client.scroll\<close> with that filter, which is not under src/;
  the first component of its result holds at most \<open>limit\<close> matching points.
\<close>

definition qdrant_scroll :: "point list \<Rightarrow> pystr \<Rightarrow> nat \<Rightarrow> point list" where
  "qdrant_scroll coll doc_id limit = take limit (doc_points doc_id coll)"

section \<open>The dispatcher: \<open>process_s3_text\<close> of \<open>publisher/celery_app.py\<close>\<close>

text \<open>\<open>s.endswith(suffix)\<close>\<close>

definition py_endswith :: "pystr \<Rightarrow> pystr \<Rightarrow> bool" where
  "py_endswith s suf = (length suf \<le> length s \<and> drop (length s - length suf) s = suf)"

text \<open>\<open>p.rfind(c)\<close> for a single character: the last index of \<open>c\<close>, or \<open>-1\<close>.\<close>

definition rfind :: "pystr \<Rightarrow> nat \<Rightarrow> int" where
  "rfind p c =
     (case filter (\<lambda>i. p ! i = c) (rev [0..<length p]) of
        [] \<Rightarrow> - 1
      | i # _ \<Rightarrow> int i)"

text \<open>
  \<open>os.path.splitext\<close> of \<open>posixpath\<close>: split at the last dot of the last path component,
  unless that component has only dots before it (0x2F is the slash, 0x2E the dot).
\<close>

definition splitext :: "pystr \<Rightarrow> pystr \<times> pystr" where
  "splitext p =
     (let sepIndex = rfind p 0x2F; dotIndex = rfind p 0x2E in
      if dotIndex > sepIndex
         \<and> list_ex (\<lambda>i. p ! i \<noteq> 0x2E) [nat (sepIndex + 1)..<nat dotIndex]
      then (take (nat dotIndex) p, drop (nat dotIndex) p)
      else (p, []))"

text \<open>
  The services the dispatcher calls. A call to S3 returns its value or raises; a call to
  Qdrant or to the broker may raise (\<open>Some e\<close>) instead of being served. \<open>uuid4 n\<close> is the
  \<open>n\<close>-th identifier drawn from \<open>uuid.uuid4()\<close>, as a string. \<open>list_objects_v2 b\<close> is the list
  of the keys under \<open>Contents\<close> of the listing of bucket \<open>b\<close>.
\<close>

record dispatcher_env =
  list_objects_v2 :: "pystr \<Rightarrow> error + pystr list"
  get_object :: "pystr \<Rightarrow> pystr \<Rightarrow> error + byte list"
  scroll_fault :: "pystr \<Rightarrow> error option"
  send_fault :: "task \<Rightarrow> error option"
  uuid4 :: "nat \<Rightarrow> pystr"

text \<open>
  The tasks sent to \<open>chunk_content_queue\<close> so far, the keys handed to \<open>get_object\<close> so far,
  and the number of identifiers drawn.
\<close>

record dispatcher_state =
  queue :: "task list"
  fetched :: "pystr list"
  uuids_drawn :: nat

text \<open>The loop over the paragraphs of one document (lines 118 to 127).\<close>

fun send_chunks ::
  "dispatcher_env \<Rightarrow> pystr \<Rightarrow> pystr list \<Rightarrow> dispatcher_state
   \<Rightarrow> (error + unit) \<times> dispatcher_state" where
  "send_chunks env doc_id [] st = (Inr (), st)"
| "send_chunks env doc_id (text # rest) st =
     (let chunk_id = uuid4 env (uuids_drawn st);
          st1 = st\<lparr>uuids_drawn := Suc (uuids_drawn st)\<rparr>;
          t = \<lparr>task_doc_id = PStr doc_id, task_chunk_id = PStr chunk_id, task_text = PStr text\<rparr>
      in case send_fault env t of
           Some e \<Rightarrow> (Inl e, st1)
         | None \<Rightarrow> send_chunks env doc_id rest (st1\<lparr>queue := queue st1 @ [t]\<rparr>))"

text \<open>
  The loop over the text files (lines 88 to 127). It runs inside the \<open>try\<close> of line 79,
  whose handler logs and re-raises: an exception in any iteration ends the loop.
\<close>

fun process_keys ::
  "dispatcher_env \<Rightarrow> point list \<Rightarrow> pystr \<Rightarrow> pystr list \<Rightarrow> dispatcher_state
   \<Rightarrow> (error + unit) \<times> dispatcher_state" where
  "process_keys env coll bucket_name [] st = (Inr (), st)"
| "process_keys env coll bucket_name (text_key # rest) st =
     (let doc_id = fst (splitext text_key) in
      case scroll_fault env doc_id of
        Some e \<Rightarrow> (Inl e, st)
      | None \<Rightarrow>
          if qdrant_scroll coll doc_id 1 \<noteq> [] then process_keys env coll bucket_name rest st
          else
            (let st0 = st\<lparr>fetched := fetched st @ [text_key]\<rparr> in
             case get_object env bucket_name text_key of
               Inl e \<Rightarrow> (Inl e, st0)
             | Inr text_content \<Rightarrow>
                 (case parse_text text_content of
                    Inl e \<Rightarrow> (Inl e, st0)
                  | Inr paragraphs \<Rightarrow>
                      (case send_chunks env doc_id paragraphs st0 of
                         (Inl e, st') \<Rightarrow> (Inl e, st')
                       | (Inr u, st') \<Rightarrow> process_keys env coll bucket_name rest st'))))"

definition text_files :: "pystr list \<Rightarrow> pystr list" where
  "text_files keys = filter (\<lambda>k. py_endswith k (py ''.txt'')) keys"

definition process_s3_text ::
  "dispatcher_env \<Rightarrow> point list \<Rightarrow> pystr \<Rightarrow> dispatcher_state
   \<Rightarrow> (error + unit) \<times> dispatcher_state" where
  "process_s3_text env coll bucket_name st =
     (case list_objects_v2 env bucket_name of
        Inl e \<Rightarrow> (Inl e, st)
      | Inr keys \<Rightarrow> process_keys env coll bucket_name (text_files keys) st)"

text \<open>The tasks a run has added to the queue, and those among them for one document.\<close>

definition new_tasks :: "dispatcher_state \<Rightarrow> dispatcher_state \<Rightarrow> task list" where
  "new_tasks st st' = drop (length (queue st)) (queue st')"

definition tasks_for :: "pystr \<Rightarrow> task list \<Rightarrow> task list" where
  "tasks_for doc_id ts = filter (\<lambda>t. task_doc_id t = PStr doc_id) ts"

text \<open>The keys a run has fetched, and those among them that name one document.\<close>

definition new_fetches :: "dispatcher_state \<Rightarrow> dispatcher_state \<Rightarrow> pystr list" where
  "new_fetches st st' = drop (length (fetched st)) (fetched st')"

definition keys_for :: "pystr \<Rightarrow> pystr list \<Rightarrow> pystr list" where
  "keys_for doc_id ks = filter (\<lambda>k. fst (splitext k) = doc_id) ks"

section \<open>The worker: \<open>store_pdf_content\<close> of \<open>consumer/embed_app.py\<close>\<close>

text \<open>
  The embedding model returns a vector or raises; an upsert may raise instead of being
  applied. The state holds the collection and, in call order, the texts handed to the
  embedding model and the points handed to \<open>qdrant_client.upsert\<close>. The first test is the
  \<open>len(text)\<close> of line 63, which stands before the \<open>try\<close>. The messages of the exceptions
  are cut down to their constant part.
\<close>

record worker_env =
  embed :: "pyval \<Rightarrow> error + real list"
  upsert_fault :: "point \<Rightarrow> error option"

record worker_state =
  collection :: "point list"
  embed_calls :: "pyval list"
  upsert_calls :: "point list"

definition store_pdf_content ::
  "worker_env \<Rightarrow> task \<Rightarrow> worker_state \<Rightarrow> (error + unit) \<times> worker_state" where
  "store_pdf_content env t st =
     (let doc_id = task_doc_id t; chunk_id = task_chunk_id t; text = task_text t in
      if \<not> has_len text then (Inl TypeError, st)
      else if \<not> is_str doc_id then (Inl (ValueError ''doc_id must be a string''), st)
      else if \<not> is_str chunk_id then (Inl (ValueError ''chunk_id must be a string''), st)
      else
        (let st1 = st\<lparr>embed_calls := embed_calls st @ [text]\<rparr> in
         case embed env text of
           Inl e \<Rightarrow> (Inl e, st1)
         | Inr embedding_vector \<Rightarrow>
             if length embedding_vector \<noteq> 384
             then (Inl (ValueError ''Embedding vector length does not match expected 384''), st1)
             else
               (let p = \<lparr>point_id = chunk_id, vector = embedding_vector,
                         payload = [(py ''doc_id'', doc_id), (py ''text'', text)]\<rparr>;
                    st2 = st1\<lparr>upsert_calls := upsert_calls st1 @ [p]\<rparr>
                in case upsert_fault env p of
                     Some e \<Rightarrow> (Inl e, st2)
                   | None \<Rightarrow> (Inr (), st2\<lparr>collection := qdrant_upsert p (collection st2)\<rparr>))))"

section \<open>The query service: \<open>search\<close> of \<open>query-engine/query_service.py\<close>\<close>

text \<open>
  \<open>int(x)\<close> on a JSON value. The conversion of a string is Python's own parser of integer
  literals, taken as the parameter \<open>int_of_str\<close>.
\<close>

definition py_int :: "(pystr \<Rightarrow> error + int) \<Rightarrow> pyval \<Rightarrow> error + int" where
  "py_int int_of_str v =
     (case v of
        PInt i \<Rightarrow> Inr i
      | PBool b \<Rightarrow> Inr (if b then 1 else 0)
      | PFloat f \<Rightarrow>
          (case f of
             Fin r \<Rightarrow> Inr (if 0 \<le> r then \<lfloor>r\<rfloor> else \<lceil>r\<rceil>)
           | NaN \<Rightarrow> Inl (ValueError ''cannot convert float NaN to integer'')
           | _ \<Rightarrow> Inl OverflowError)
      | PStr s \<Rightarrow> int_of_str s
      | _ \<Rightarrow> Inl TypeError)"

text \<open>\<open>sub in s\<close> for two strings.\<close>

definition is_substr :: "pystr \<Rightarrow> pystr \<Rightarrow> bool" where
  "is_substr sub s = list_ex (\<lambda>i. take (length sub) (drop i s) = sub) [0..<Suc (length s)]"

text \<open>\<open>k in data\<close> for a string \<open>k\<close>.\<close>

definition py_in :: "pystr \<Rightarrow> pyval \<Rightarrow> error + bool" where
  "py_in k data =
     (case data of
        PDict d \<Rightarrow> Inr (k \<in> set (map fst d))
      | PList l \<Rightarrow> Inr (PStr k \<in> set l)
      | PStr s \<Rightarrow> Inr (is_substr k s)
      | _ \<Rightarrow> Inl TypeError)"

text \<open>\<open>data[k]\<close> for a string \<open>k\<close>.\<close>

definition py_getitem :: "pyval \<Rightarrow> pystr \<Rightarrow> error + pyval" where
  "py_getitem data k =
     (case data of
        PDict d \<Rightarrow> (case map_of d k of None \<Rightarrow> Inl KeyError | Some v \<Rightarrow> Inr v)
      | _ \<Rightarrow> Inl TypeError)"

text \<open>A search hit as the Qdrant client returns it: the payload may be absent.\<close>

record scored_point =
  sp_id :: pyval
  sp_payload :: "pydict option"
  sp_score :: pyfloat

record query_env =
  int_of_str :: "pystr \<Rightarrow> error + int"
  embed_query :: "pystr \<Rightarrow> error + real list"
  qdrant_search :: "real list \<Rightarrow> int \<Rightarrow> error + scored_point list"

datatype body = ErrorBody string | ExceptionBody error | ResultsBody "pyval list"

record response =
  status :: nat
  body :: body

text \<open>The calls the handler makes to the embedding model and to the vector store.\<close>

datatype qevent = EmbedCall pystr | SearchCall "real list" int

text \<open>One entry of the result list (lines 67 to 72).\<close>

definition format_result :: "scored_point \<Rightarrow> error + pyval" where
  "format_result r =
     (case sp_payload r of
        None \<Rightarrow> Inl AttributeError
      | Some pl \<Rightarrow>
          Inr (PDict [(py ''doc_id'', dict_get pl (py ''doc_id'') (PStr [])),
                      (py ''chunk_id'', sp_id r),
                      (py ''text'', dict_get pl (py ''text'') (PStr [])),
                      (py ''score'', PFloat (sp_score r))]))"

fun format_results :: "scored_point list \<Rightarrow> error + pyval list" where
  "format_results [] = Inr []"
| "format_results (r # rs) =
     (case format_result r of
        Inl e \<Rightarrow> Inl e
      | Inr x \<Rightarrow> (case format_results rs of Inl e \<Rightarrow> Inl e | Inr xs \<Rightarrow> Inr (x # xs)))"

definition bad_request :: "string \<Rightarrow> response" where
  "bad_request msg = \<lparr>status = 400, body = ErrorBody msg\<rparr>"

text \<open>Lines 47 to 77: embedding, search and formatting, for a validated request.\<close>

definition run_query ::
  "query_env \<Rightarrow> pystr \<Rightarrow> int \<Rightarrow> (error + response) \<times> qevent list" where
  "run_query env query_text top_n =
     (case embed_query env query_text of
        Inl e \<Rightarrow> (Inl e, [EmbedCall query_text])
      | Inr query_embedding \<Rightarrow>
          if length query_embedding \<noteq> 384
          then (Inr \<lparr>status = 500, body = ErrorBody ''Failed to generate valid query embedding''\<rparr>,
                [EmbedCall query_text])
          else
            (case qdrant_search env query_embedding top_n of
               Inl e \<Rightarrow> (Inl e, [EmbedCall query_text, SearchCall query_embedding top_n])
             | Inr search_results \<Rightarrow>
                 (case format_results search_results of
                    Inl e \<Rightarrow> (Inl e, [EmbedCall query_text, SearchCall query_embedding top_n])
                  | Inr results \<Rightarrow>
                      (Inr \<lparr>status = 200, body = ResultsBody results\<rparr>,
                       [EmbedCall query_text, SearchCall query_embedding top_n]))))"

text \<open>Lines 39 to 45: the conversion of \<open>top_n\<close> comes before both checks.\<close>

definition check_fields ::
  "query_env \<Rightarrow> pyval \<Rightarrow> pyval \<Rightarrow> (error + response) \<times> qevent list" where
  "check_fields env query_text top_v =
     (case py_int (int_of_str env) top_v of
        Inl e \<Rightarrow> (Inl e, [])
      | Inr top_n \<Rightarrow>
          (case query_text of
             PStr q \<Rightarrow>
               if py_strip q = [] then (Inr (bad_request ''query_text must be a non-empty string''), [])
               else if top_n \<le> 0 then (Inr (bad_request ''top_n must be a positive integer''), [])
               else run_query env q top_n
           | _ \<Rightarrow> (Inr (bad_request ''query_text must be a non-empty string''), [])))"

text \<open>Lines 35 to 37 and the lookups; \<open>request\<close> is what \<open>request.get_json()\<close> gives.\<close>

definition search_body ::
  "query_env \<Rightarrow> error + pyval \<Rightarrow> (error + response) \<times> qevent list" where
  "search_body env request =
     (case request of
        Inl e \<Rightarrow> (Inl e, [])
      | Inr data \<Rightarrow>
          if \<not> truthy data
          then (Inr (bad_request ''Missing query_text or top_n in request body''), [])
          else
            (case py_in (py ''query_text'') data of
               Inl e \<Rightarrow> (Inl e, [])
             | Inr has_q \<Rightarrow>
                 if \<not> has_q
                 then (Inr (bad_request ''Missing query_text or top_n in request body''), [])
                 else
                   (case py_in (py ''top_n'') data of
                      Inl e \<Rightarrow> (Inl e, [])
                    | Inr has_n \<Rightarrow>
                        if \<not> has_n
                        then (Inr (bad_request ''Missing query_text or top_n in request body''), [])
                        else
                          (case py_getitem data (py ''query_text'') of
                             Inl e \<Rightarrow> (Inl e, [])
                           | Inr query_text \<Rightarrow>
                               (case py_getitem data (py ''top_n'') of
                                  Inl e \<Rightarrow> (Inl e, [])
                                | Inr top_v \<Rightarrow> check_fields env query_text top_v)))))"

text \<open>The handler: any exception of the body becomes a 500 response (lines 79 to 81).\<close>

definition search :: "query_env \<Rightarrow> error + pyval \<Rightarrow> response \<times> qevent list" where
  "search env request =
     (case search_body env request of
        (Inl e, evs) \<Rightarrow> (\<lparr>status = 500, body = ExceptionBody e\<rparr>, evs)
      | (Inr r, evs) \<Rightarrow> (r, evs))"

text \<open>The embedding model was invoked.\<close>

definition embeds :: "qevent list \<Rightarrow> pystr list" where
  "embeds evs = concat (map (\<lambda>ev. case ev of EmbedCall q \<Rightarrow> [q] | _ \<Rightarrow> []) evs)"

section \<open>A small bucket and collection for the examples\<close>

text \<open>
  Four objects: \<open>a.txt\<close> holds \<open>A\<close>, \<open>b.txt\<close> holds two paragraphs, \<open>bad.txt\<close> holds the single
  byte 0xFF, which no UTF-8 text contains, and \<open>c.txt\<close> holds \<open>C\<close>. No service fails. The
  collection holds one point of document \<open>a\<close>.
\<close>

definition demo_object :: "pystr \<Rightarrow> error + byte list" where
  "demo_object k =
     (if k = py ''a.txt'' then Inr [0x41]
      else if k = py ''b.txt'' then Inr [0x48, 0x69, 0x0A, 0x0A, 0x59, 0x6F]
      else if k = py ''bad.txt'' then Inr [0xFF]
      else if k = py ''c.txt'' then Inr [0x43]
      else Inl (ExternalError ''NoSuchKey''))"

definition demo_dispatcher_env :: "pystr list \<Rightarrow> dispatcher_env" where
  "demo_dispatcher_env keys =
     \<lparr>list_objects_v2 = (\<lambda>b. Inr keys),
      get_object = (\<lambda>b k. demo_object k),
      scroll_fault = (\<lambda>d. None),
      send_fault = (\<lambda>t. None),
      uuid4 = (\<lambda>n. py ''chunk-'' @ [48 + n])\<rparr>"

definition demo_collection :: "point list" where
  "demo_collection =
     [\<lparr>point_id = PStr (py ''p1''), vector = [],
       payload = [(py ''doc_id'', PStr (py ''a'')), (py ''text'', PStr (py ''A''))]\<rparr>]"

definition demo_dispatcher_state :: dispatcher_state where
  "demo_dispatcher_state = \<lparr>queue = [], fetched = [], uuids_drawn = 0\<rparr>"

text \<open>
  A worker whose embedding model returns three numbers for the text \<open>short\<close> and 384 numbers
  for any other text, and whose vector store serves every upsert; an empty collection.
\<close>

definition demo_worker_env :: worker_env where
  "demo_worker_env =
     \<lparr>embed = (\<lambda>t. if t = PStr (py ''short'') then Inr (replicate 3 0) else Inr (replicate 384 0)),
      upsert_fault = (\<lambda>p. None)\<rparr>"

definition demo_worker_state :: worker_state where
  "demo_worker_state = \<lparr>collection = [], embed_calls = [], upsert_calls = []\<rparr>"

text \<open>
  A query service whose string parser reads \<open>5\<close> and rejects every other string, whose
  embedding model returns 384 numbers, and whose vector store returns the first \<open>n\<close> of
  three hits; the payload of the second hit has no \<open>doc_id\<close>, that of the third is empty.
\<close>

definition demo_hits :: "scored_point list" where
  "demo_hits =
     [\<lparr>sp_id = PStr (py ''c1''),
       sp_payload = Some [(py ''doc_id'', PStr (py ''d'')), (py ''text'', PStr (py ''hello''))],
       sp_score = Fin 0.9\<rparr>,
      \<lparr>sp_id = PInt 7, sp_payload = Some [(py ''text'', PNone)], sp_score = Fin 0.5\<rparr>,
      \<lparr>sp_id = PStr (py ''c3''), sp_payload = Some [], sp_score = Fin 0\<rparr>]"

definition demo_query_env :: query_env where
  "demo_query_env =
     \<lparr>int_of_str = (\<lambda>s. if s = py ''5'' then Inr 5
                         else Inl (ValueError ''invalid literal for int() with base 10'')),
      embed_query = (\<lambda>q. Inr (replicate 384 0)),
      qdrant_search = (\<lambda>v n. Inr (take (nat n) demo_hits))\<rparr>"

section \<open>Properties of the chunker\<close>

lemma split_scan_no_nn: "\<not> has_nn t \<Longrightarrow> split_scan cur t = [rev cur @ t]"
  by (induction cur t rule: split_scan.induct) auto

lemma has_nn_iff: "has_nn t \<longleftrightarrow> (\<exists>u v. t = u @ [10, 10] @ v)"
proof (induction t rule: has_nn.induct)
  case (1 a b r)
  show ?case
  proof
    assume "has_nn (a # b # r)"
    then consider "a = 10 \<and> b = 10" | "has_nn (b # r)" by auto
    then show "\<exists>u v. a # b # r = u @ [10, 10] @ v"
    proof cases
      case 1
      then have "a # b # r = [] @ [10, 10] @ r" by simp
      then show ?thesis by blast
    next
      case 2
      with "1.IH" obtain u v where "b # r = u @ [10, 10] @ v" by blast
      then have "a # b # r = (a # u) @ [10, 10] @ v" by simp
      then show ?thesis by blast
    qed
  next
    assume "\<exists>u v. a # b # r = u @ [10, 10] @ v"
    then obtain u v where uv: "a # b # r = u @ [10, 10] @ v" by blast
    show "has_nn (a # b # r)"
    proof (cases u)
      case Nil
      with uv show ?thesis by simp
    next
      case (Cons x u')
      with uv have "b # r = u' @ [10, 10] @ v" by simp
      with "1.IH" have "has_nn (b # r)" by blast
      then show ?thesis by simp
    qed
  qed
qed (auto simp: Cons_eq_append_conv)

lemma split_scan_blank:
  "list_all is_space cur \<Longrightarrow> list_all is_space t \<Longrightarrow> list_all blank (split_scan cur t)"
  by (induction cur t rule: split_scan.induct) (auto simp: blank_def)

lemma py_strip_Nil_iff: "py_strip s = [] \<longleftrightarrow> blank s"
proof -
  have "py_strip s = [] \<longleftrightarrow> (\<forall>x \<in> set (dropWhile is_space s). is_space x)"
    by (simp add: py_strip_def dropWhile_eq_Nil_conv)
  also have "\<dots> \<longleftrightarrow> dropWhile is_space s = []"
  proof
    assume a: "\<forall>x \<in> set (dropWhile is_space s). is_space x"
    show "dropWhile is_space s = []"
    proof (rule ccontr)
      assume ne: "dropWhile is_space s \<noteq> []"
      then have "\<not> is_space (hd (dropWhile is_space s))" by (rule hd_dropWhile)
      moreover from ne have "hd (dropWhile is_space s) \<in> set (dropWhile is_space s)" by simp
      ultimately show False using a by blast
    qed
  qed (auto dest: set_dropWhileD)
  also have "dropWhile is_space s = [] \<longleftrightarrow> blank s"
    by (simp add: dropWhile_eq_Nil_conv blank_def list_all_iff)
  finally show ?thesis .
qed

lemma utf8_decode_examples:
  "utf8_decode [0xE2, 0x82, 0xAC, 0xF0, 0x9F, 0x98, 0x80, 0xC3, 0xA9] = Some [0x20AC, 0x1F600, 0xE9]"
  "utf8_decode [0xC0, 0x80] = None"
  "utf8_decode [0xED, 0xA0, 0x80] = None"
  "utf8_decode [0xF4, 0x90, 0x80, 0x80] = None"
  "utf8_decode [0xC3] = None"
  by (simp_all add: is_cont_def cont_bits_def second_ok3_def second_ok4_def)

lemma filter_strip_blank:
  "list_all blank ps \<Longrightarrow> filter (\<lambda>p. py_strip p \<noteq> []) ps = []"
  by (induction ps) (auto simp: py_strip_Nil_iff)

text \<open>
  C5. The chunker is a function of the file content alone. When the content decodes to a
  text without two consecutive line feeds, the result is the single chunk holding the
  stripped text; when the decoded text is empty or whitespace only, the result is the empty
  list (this case takes precedence: the stripped text would be empty and is discarded).
\<close>

theorem parse_text_single_or_empty:
  assumes "utf8_decode file_content = Some text"
  shows "(blank text \<longrightarrow> parse_text file_content = Inr [])
       \<and> (\<not> blank text \<and> \<not> has_nn text \<longrightarrow> parse_text file_content = Inr [py_strip text])"
proof (intro conjI impI)
  assume "blank text"
  then have "list_all blank (py_split_nn text)"
    by (simp add: py_split_nn_def blank_def split_scan_blank)
  then show "parse_text file_content = Inr []"
    using assms by (simp add: parse_text_def filter_strip_blank)
next
  assume "\<not> blank text \<and> \<not> has_nn text"
  then show "parse_text file_content = Inr [py_strip text]"
    using assms by (simp add: parse_text_def py_split_nn_def split_scan_no_nn py_strip_Nil_iff)
qed

theorem parse_text_single_or_empty_witness:
  "parse_text [0x20, 0x48, 0x69, 0x0A] = Inr [[0x48, 0x69]]
   \<and> parse_text [0x20, 0x0A, 0x0A, 0x0A, 0x09] = Inr []"
proof -
  have d1: "utf8_decode [0x20, 0x48, 0x69, 0x0A] = Some [0x20, 0x48, 0x69, 0x0A]"
    by simp
  have d2: "utf8_decode [0x20, 0x0A, 0x0A, 0x0A, 0x09] = Some [0x20, 0x0A, 0x0A, 0x0A, 0x09]"
    by simp
  have b1: "\<not> blank [0x20, 0x48, 0x69, 0x0A] \<and> \<not> has_nn [0x20, 0x48, 0x69, 0x0A]"
    by (simp add: blank_def is_space_def)
  have b2: "blank [0x20, 0x0A, 0x0A, 0x0A, 0x09]"
    by (simp add: blank_def is_space_def)
  have s1: "py_strip [0x20, 0x48, 0x69, 0x0A] = [0x48, 0x69]"
    by (simp add: py_strip_def is_space_def)
  show ?thesis
    using parse_text_single_or_empty [OF d1] parse_text_single_or_empty [OF d2] b1 b2 s1
    by simp
qed

lemma has_nn_append:
  "has_nn (x @ y) \<longleftrightarrow> has_nn x \<or> has_nn y \<or> (x \<noteq> [] \<and> y \<noteq> [] \<and> last x = 10 \<and> hd y = 10)"
proof (induction x rule: has_nn.induct)
  case (1 a b r)
  then show ?case by auto
qed (cases y; auto)+

lemma no_lf_no_nn: "10 \<notin> set x \<Longrightarrow> \<not> has_nn x"
  by (induction x rule: has_nn.induct) auto

lemma inner_line_no_nn:
  assumes "10 \<notin> set a" and "10 \<notin> set w" and "10 \<notin> set b" and "w \<noteq> []"
  shows "\<not> has_nn (a @ [10] @ w @ [10] @ b)"
proof -
  have la: "last a \<noteq> 10" if "a \<noteq> []"
    using that assms(1) last_in_set [of a] by metis
  have lw: "last w \<noteq> 10"
    using assms(2,4) last_in_set [of w] by metis
  have hw: "hd w \<noteq> 10"
    using assms(2,4) hd_in_set [of w] by metis
  have hb: "hd b \<noteq> 10" if "b \<noteq> []"
    using that assms(3) hd_in_set [of b] by metis
  have 1: "\<not> has_nn (10 # b)"
    using assms(3) hb by (cases b) (auto simp: no_lf_no_nn)
  have 2: "\<not> has_nn (w @ 10 # b)"
    using assms(2) lw 1 by (simp add: has_nn_append [of w] no_lf_no_nn)
  have 3: "\<not> has_nn (10 # w @ 10 # b)"
    using 2 assms(4) hw has_nn_append [of "[10]" "w @ 10 # b"] by simp
  have "\<not> has_nn (a @ 10 # w @ 10 # b)"
    using 3 assms(1) la by (auto simp: has_nn_append [of a] no_lf_no_nn)
  then show ?thesis by simp
qed

lemma split_scan_first:
  "\<not> has_nn (u @ [10]) \<Longrightarrow>
   split_scan cur (u @ 10 # 10 # v) = (rev cur @ u) # split_scan [] v"
proof (induction u arbitrary: cur rule: has_nn.induct)
  case (1 a b r)
  then show ?case by auto
qed auto

lemma py_strip_middle:
  assumes "\<not> blank a" and "\<not> blank b"
  shows "py_strip (a @ m @ b) = dropWhile is_space a @ m @ rev (dropWhile is_space (rev b))"
proof -
  from assms(1) obtain x where x: "x \<in> set a" "\<not> is_space x"
    by (auto simp: blank_def list_all_iff)
  from assms(2) obtain y where y: "y \<in> set (rev b)" "\<not> is_space y"
    by (auto simp: blank_def list_all_iff)
  have 1: "dropWhile is_space (a @ m @ b) = dropWhile is_space a @ m @ b"
    using x by (rule dropWhile_append1)
  have "dropWhile is_space (rev b @ (rev m @ rev (dropWhile is_space a)))
           = dropWhile is_space (rev b) @ (rev m @ rev (dropWhile is_space a))"
    using y by (rule dropWhile_append1)
  then have 2: "dropWhile is_space (rev (dropWhile is_space a @ m @ b))
           = dropWhile is_space (rev b) @ (rev m @ rev (dropWhile is_space a))"
    by simp
  show ?thesis unfolding py_strip_def 1 2 by simp
qed

lemma blank_append: "blank (x @ y) \<longleftrightarrow> blank x \<and> blank y"
  by (simp add: blank_def)

text \<open>
  C8. The chunker separates chunks at two adjacent line feeds and nowhere else. For every
  file content that decodes to a text:
  (1) when the text is not blank and holds no two adjacent line feeds, the result is one
  chunk, the stripped text;
  (2) in particular a line between two line feeds is no boundary when it holds at least one
  character, whitespace or not: for \<open>a\<close>, \<open>w\<close>, \<open>b\<close> without line feeds, \<open>w\<close> not empty, \<open>a\<close>
  and \<open>b\<close> not blank, the text \<open>a\n w \n b\<close> gives one chunk, which holds the inner line \<open>w\<close>;
  (3) the first pair of adjacent line feeds is a boundary: when the text is \<open>u\<close>, two line
  feeds, \<open>v\<close>, and \<open>u\<close> followed by one line feed holds no such pair, the chunks are the
  chunk of \<open>u\<close> (none when \<open>u\<close> is blank), followed by the chunks of \<open>v\<close>.
  The bytes of \<open>a\n \nb\<close> give the single chunk \<open>a\n \nb\<close>.
\<close>

theorem parse_text_splits_on_two_newlines_only:
  "(\<forall>t. utf8_decode file_content = Some t \<and> \<not> blank t \<and> (\<nexists>u v. t = u @ [10, 10] @ v) \<longrightarrow>
      parse_text file_content = Inr [py_strip t])
   \<and> (\<forall>a w b. utf8_decode file_content = Some (a @ [10] @ w @ [10] @ b)
        \<and> 10 \<notin> set a \<and> 10 \<notin> set w \<and> 10 \<notin> set b \<and> w \<noteq> [] \<and> \<not> blank a \<and> \<not> blank b \<longrightarrow>
      parse_text file_content
        = Inr [dropWhile is_space a @ [10] @ w @ [10] @ rev (dropWhile is_space (rev b))])
   \<and> (\<forall>u v rest_content chunks. utf8_decode file_content = Some (u @ [10, 10] @ v)
        \<and> (\<nexists>x y. u @ [10] = x @ [10, 10] @ y)
        \<and> utf8_decode rest_content = Some v \<and> parse_text rest_content = Inr chunks \<longrightarrow>
      parse_text file_content = Inr ((if blank u then [] else [py_strip u]) @ chunks))
   \<and> parse_text [0x61, 0x0A, 0x20, 0x0A, 0x62] = Inr [[0x61, 0x0A, 0x20, 0x0A, 0x62]]"
proof (intro conjI allI impI)
  fix t
  assume a: "utf8_decode file_content = Some t \<and> \<not> blank t \<and> (\<nexists>u v. t = u @ [10, 10] @ v)"
  then have "\<not> has_nn t" by (simp add: has_nn_iff)
  with a show "parse_text file_content = Inr [py_strip t]"
    by (simp add: parse_text_def py_split_nn_def split_scan_no_nn py_strip_Nil_iff)
next
  fix a w b
  assume h: "utf8_decode file_content = Some (a @ [10] @ w @ [10] @ b)
        \<and> 10 \<notin> set a \<and> 10 \<notin> set w \<and> 10 \<notin> set b \<and> w \<noteq> [] \<and> \<not> blank a \<and> \<not> blank b"
  then have "10 \<notin> set a" and "10 \<notin> set w" and "10 \<notin> set b" and "w \<noteq> []"
    by simp_all
  then have n: "\<not> has_nn (a @ [10] @ w @ [10] @ b)" by (rule inner_line_no_nn)
  from h have nb: "\<not> blank (a @ [10] @ w @ [10] @ b)" by (simp add: blank_append)
  from h have "\<not> blank a" and "\<not> blank b" by simp_all
  then have s: "py_strip (a @ ([10] @ w @ [10]) @ b)
      = dropWhile is_space a @ ([10] @ w @ [10]) @ rev (dropWhile is_space (rev b))"
    by (rule py_strip_middle)
  from h n nb have "parse_text file_content = Inr [py_strip (a @ [10] @ w @ [10] @ b)]"
    by (simp add: parse_text_def py_split_nn_def split_scan_no_nn py_strip_Nil_iff)
  with s show "parse_text file_content
        = Inr [dropWhile is_space a @ [10] @ w @ [10] @ rev (dropWhile is_space (rev b))]"
    by simp
next
  fix u v rest_content chunks
  assume h: "utf8_decode file_content = Some (u @ [10, 10] @ v)
        \<and> (\<nexists>x y. u @ [10] = x @ [10, 10] @ y)
        \<and> utf8_decode rest_content = Some v \<and> parse_text rest_content = Inr chunks"
  then have "\<not> has_nn (u @ [10])" by (simp add: has_nn_iff)
  then have "py_split_nn (u @ [10, 10] @ v) = u # py_split_nn v"
    using split_scan_first [of u "[]" v] by (simp add: py_split_nn_def)
  with h show "parse_text file_content = Inr ((if blank u then [] else [py_strip u]) @ chunks)"
    by (auto simp: parse_text_def py_strip_Nil_iff)
next
  show "parse_text [0x61, 0x0A, 0x20, 0x0A, 0x62] = Inr [[0x61, 0x0A, 0x20, 0x0A, 0x62]]"
    by (simp add: parse_text_def py_split_nn_def py_strip_def is_space_def)
qed

theorem parse_text_splits_on_two_newlines_only_witness:
  "parse_text [0x20, 0x61, 0x0A, 0x09, 0x0A, 0x62, 0x20] = Inr [[0x61, 0x0A, 0x09, 0x0A, 0x62]]
   \<and> parse_text [0x61, 0x0A, 0x0A, 0x62, 0x0A, 0x20, 0x0A, 0x63]
       = Inr [[0x61], [0x62, 0x0A, 0x20, 0x0A, 0x63]]"
proof -
  let ?c1 = "[0x20, 0x61, 0x0A, 0x09, 0x0A, 0x62, 0x20] :: byte list"
  let ?c2 = "[0x61, 0x0A, 0x0A, 0x62, 0x0A, 0x20, 0x0A, 0x63] :: byte list"
  let ?r2 = "[0x62, 0x0A, 0x20, 0x0A, 0x63] :: byte list"
  have d1: "utf8_decode ?c1 = Some ([0x20, 0x61] @ [10] @ [0x09] @ [10] @ [0x62, 0x20])"
    by simp
  have s1: "10 \<notin> set [0x20, 0x61 :: nat] \<and> 10 \<notin> set [0x09 :: nat] \<and> 10 \<notin> set [0x62, 0x20 :: nat]
      \<and> [0x09 :: nat] \<noteq> [] \<and> \<not> blank [0x20, 0x61] \<and> \<not> blank [0x62, 0x20]"
    by (simp add: blank_def is_space_def)
  have e1: "dropWhile is_space [0x20, 0x61] @ [10] @ [0x09] @ [10]
              @ rev (dropWhile is_space (rev [0x62, 0x20]))
            = [0x61, 0x0A, 0x09, 0x0A, 0x62]"
    by (simp add: is_space_def)
  have d2: "utf8_decode ?c2 = Some ([0x61] @ [10, 10] @ [0x62, 0x0A, 0x20, 0x0A, 0x63])"
    by simp
  have n2: "\<nexists>x y. [0x61 :: nat] @ [10] = x @ [10, 10] @ y"
    using has_nn_iff [of "[0x61, 10]"] by simp
  have r2: "utf8_decode ?r2 = Some [0x62, 0x0A, 0x20, 0x0A, 0x63]" by simp
  have p2: "parse_text ?r2 = Inr [[0x62, 0x0A, 0x20, 0x0A, 0x63]]"
    by (simp add: parse_text_def py_split_nn_def py_strip_def is_space_def)
  have b2: "\<not> blank [0x61]" "py_strip [0x61] = [0x61]"
    by (simp_all add: blank_def py_strip_def is_space_def)
  from parse_text_splits_on_two_newlines_only [of ?c1] d1 s1
  have "parse_text ?c1 = Inr [dropWhile is_space [0x20, 0x61] @ [10] @ [0x09] @ [10]
              @ rev (dropWhile is_space (rev [0x62, 0x20]))]"
    by blast
  moreover
  from parse_text_splits_on_two_newlines_only [of ?c2] d2 n2 r2 p2
  have "parse_text ?c2 = Inr ((if blank [0x61] then [] else [py_strip [0x61]])
                               @ [[0x62, 0x0A, 0x20, 0x0A, 0x63]])"
    by blast
  ultimately show ?thesis using e1 b2 by simp
qed

section \<open>Properties of the dispatcher\<close>

lemma send_chunks_effect:
  "\<exists>new. queue (snd (send_chunks env d ps st)) = queue st @ new
     \<and> (\<forall>t\<in>set new. task_doc_id t = PStr d)
     \<and> fetched (snd (send_chunks env d ps st)) = fetched st"
proof (induction ps arbitrary: st)
  case Nil
  show ?case by simp
next
  case (Cons tx rest)
  define t where "t = \<lparr>task_doc_id = PStr d, task_chunk_id = PStr (uuid4 env (uuids_drawn st)),
                        task_text = PStr tx\<rparr>"
  define st1 where "st1 = st\<lparr>uuids_drawn := Suc (uuids_drawn st)\<rparr>"
  show ?case
  proof (cases "send_fault env t")
    case (Some e)
    then have "send_chunks env d (tx # rest) st = (Inl e, st1)"
      by (simp add: t_def st1_def Let_def)
    then show ?thesis by (simp add: st1_def)
  next
    case None
    then have eq: "send_chunks env d (tx # rest) st
                 = send_chunks env d rest (st1\<lparr>queue := queue st1 @ [t]\<rparr>)"
      by (simp add: t_def st1_def Let_def)
    from Cons.IH [of "st1\<lparr>queue := queue st1 @ [t]\<rparr>"]
    obtain new where
      q: "queue (snd (send_chunks env d rest (st1\<lparr>queue := queue st1 @ [t]\<rparr>)))
            = (queue st @ [t]) @ new"
      and a: "\<forall>x\<in>set new. task_doc_id x = PStr d"
      and f: "fetched (snd (send_chunks env d rest (st1\<lparr>queue := queue st1 @ [t]\<rparr>))) = fetched st"
      by (auto simp: st1_def)
    have "task_doc_id t = PStr d" by (simp add: t_def)
    with q a f eq show ?thesis
      by (intro exI [of _ "t # new"]) simp
  qed
qed

lemma scroll_nonempty:
  assumes "p \<in> set coll" and "map_of (payload p) (py ''doc_id'') = Some (PStr doc_id)"
  shows "qdrant_scroll coll doc_id 1 \<noteq> []"
proof -
  from assms have "p \<in> set (doc_points doc_id coll)" by (simp add: doc_points_def)
  then have "doc_points doc_id coll \<noteq> []" by auto
  then show ?thesis by (cases "doc_points doc_id coll") (simp_all add: qdrant_scroll_def)
qed

lemma process_keys_effect:
  "\<exists>new newf. queue (snd (process_keys env coll b keys st)) = queue st @ new
     \<and> fetched (snd (process_keys env coll b keys st)) = fetched st @ newf
     \<and> (\<forall>t\<in>set new. \<exists>d. task_doc_id t = PStr d \<and> qdrant_scroll coll d 1 = [])
     \<and> (\<forall>k\<in>set newf. qdrant_scroll coll (fst (splitext k)) 1 = [])"
proof (induction keys arbitrary: st)
  case Nil
  show ?case by simp
next
  case (Cons k rest)
  define d where "d = fst (splitext k)"
  define st0 where "st0 = st\<lparr>fetched := fetched st @ [k]\<rparr>"
  let ?r = "process_keys env coll b (k # rest) st"
  consider
      (fault) e where "scroll_fault env d = Some e"
    | (skip) "scroll_fault env d = None" "qdrant_scroll coll d 1 \<noteq> []"
    | (fetch) "scroll_fault env d = None" "qdrant_scroll coll d 1 = []"
    by (cases "scroll_fault env d") auto
  then show ?case
  proof cases
    case fault
    then have "?r = (Inl e, st)" by (simp add: d_def Let_def)
    then show ?thesis by simp
  next
    case skip
    then have "?r = process_keys env coll b rest st" by (simp add: d_def Let_def)
    with Cons.IH [of st] show ?thesis by simp
  next
    case fetch
    show ?thesis
    proof (cases "get_object env b k")
      case (Inl e)
      with fetch have "?r = (Inl e, st0)" by (simp add: d_def st0_def Let_def)
      with fetch show ?thesis
        by (intro exI [of _ "[]"] exI [of _ "[k]"]) (simp add: st0_def d_def)
    next
      case (Inr content)
      show ?thesis
      proof (cases "parse_text content")
        case (Inl e)
        with Inr fetch have "?r = (Inl e, st0)" by (simp add: d_def st0_def Let_def)
        with fetch show ?thesis
          by (intro exI [of _ "[]"] exI [of _ "[k]"]) (simp add: st0_def d_def)
      next
        case ps: (Inr paragraphs)
        obtain res st' where sc: "send_chunks env d paragraphs st0 = (res, st')"
          by (cases "send_chunks env d paragraphs st0")
        from send_chunks_effect [of env d paragraphs st0] sc
        obtain new1 where
          q1: "queue st' = queue st @ new1"
          and a1: "\<forall>t\<in>set new1. task_doc_id t = PStr d"
          and f1: "fetched st' = fetched st @ [k]"
          by (auto simp: st0_def)
        show ?thesis
        proof (cases res)
          case (Inl e)
          with Inr ps fetch sc have "?r = (Inl e, st')"
            by (simp add: d_def st0_def Let_def)
          with q1 a1 f1 fetch show ?thesis
            by (intro exI [of _ new1] exI [of _ "[k]"]) (auto simp: d_def)
        next
          case r: (Inr u)
          with Inr ps fetch sc have eq: "?r = process_keys env coll b rest st'"
            by (simp add: d_def st0_def Let_def)
          from Cons.IH [of st'] obtain new2 newf2 where
            q2: "queue (snd (process_keys env coll b rest st')) = queue st' @ new2"
            and f2: "fetched (snd (process_keys env coll b rest st')) = fetched st' @ newf2"
            and a2: "\<forall>t\<in>set new2. \<exists>d. task_doc_id t = PStr d \<and> qdrant_scroll coll d 1 = []"
            and b2: "\<forall>k\<in>set newf2. qdrant_scroll coll (fst (splitext k)) 1 = []"
            by blast
          from q1 q2 f1 f2 a1 a2 b2 fetch eq show ?thesis
            by (intro exI [of _ "new1 @ new2"] exI [of _ "k # newf2"]) (auto simp: d_def)
        qed
      qed
    qed
  qed
qed

text \<open>
  C1. If the collection holds a point whose payload has \<open>doc_id\<close> equal to \<open>X\<close>, a run of the
  dispatcher sends no task for document \<open>X\<close> and fetches no object whose name gives \<open>X\<close>:
  the document is skipped before the download and the chunking.
\<close>

theorem dispatcher_skips_indexed_document:
  assumes "p \<in> set coll" and "map_of (payload p) (py ''doc_id'') = Some (PStr doc_id)"
  shows "tasks_for doc_id (new_tasks st (snd (process_s3_text env coll bucket_name st))) = []
       \<and> keys_for doc_id (new_fetches st (snd (process_s3_text env coll bucket_name st))) = []"
proof (cases "list_objects_v2 env bucket_name")
  case (Inl e)
  then show ?thesis
    by (simp add: process_s3_text_def new_tasks_def tasks_for_def new_fetches_def keys_for_def)
next
  case (Inr keys)
  from assms have ne: "qdrant_scroll coll doc_id 1 \<noteq> []" by (rule scroll_nonempty)
  from process_keys_effect [of env coll bucket_name "text_files keys" st]
  obtain new newf where
    q: "queue (snd (process_keys env coll bucket_name (text_files keys) st)) = queue st @ new"
    and f: "fetched (snd (process_keys env coll bucket_name (text_files keys) st)) = fetched st @ newf"
    and a: "\<forall>t\<in>set new. \<exists>d. task_doc_id t = PStr d \<and> qdrant_scroll coll d 1 = []"
    and b: "\<forall>k\<in>set newf. qdrant_scroll coll (fst (splitext k)) 1 = []"
    by blast
  from a ne have "filter (\<lambda>t. task_doc_id t = PStr doc_id) new = []"
    by (auto simp: filter_empty_conv)
  moreover from b ne have "filter (\<lambda>k. fst (splitext k) = doc_id) newf = []"
    by (auto simp: filter_empty_conv)
  ultimately show ?thesis using Inr q f
    by (simp add: process_s3_text_def new_tasks_def tasks_for_def new_fetches_def keys_for_def)
qed


section \<open>The example bucket, evaluated\<close>

lemma demo_parse_b: "parse_text [0x48, 0x69, 0x0A, 0x0A, 0x59, 0x6F] = Inr [[0x48, 0x69], [0x59, 0x6F]]"
  by (simp add: parse_text_def py_split_nn_def py_strip_def is_space_def)
lemma demo_parse_bad: "parse_text [0xFF] = Inl UnicodeDecodeError"
  by (simp add: parse_text_def)
lemma demo_parse_c: "parse_text [0x43] = Inr [[0x43]]"
  by (simp add: parse_text_def py_split_nn_def py_strip_def is_space_def)
lemma demo_text_files:
  "text_files [py ''a.txt'', py ''notes.md'', py ''b.txt''] = [py ''a.txt'', py ''b.txt'']"
  "text_files [py ''b.txt'', py ''bad.txt'', py ''c.txt''] = [py ''b.txt'', py ''bad.txt'', py ''c.txt'']"
  "text_files [py ''c.txt''] = [py ''c.txt'']"
  by (simp_all add: text_files_def py_endswith_def py_def)
lemma demo_splitext:
  "splitext (py ''a.txt'') = (py ''a'', py ''.txt'')"
  "splitext (py ''b.txt'') = (py ''b'', py ''.txt'')"
  "splitext (py ''bad.txt'') = (py ''bad'', py ''.txt'')"
  "splitext (py ''c.txt'') = (py ''c'', py ''.txt'')"
  by code_simp+
lemma demo_scroll:
  "qdrant_scroll demo_collection (py ''a'') (Suc 0) \<noteq> []"
  "qdrant_scroll demo_collection (py ''b'') (Suc 0) = []"
  "qdrant_scroll [] d (Suc 0) = []"
  by (simp_all add: qdrant_scroll_def doc_points_def demo_collection_def py_def)
lemma demo_objects:
  "demo_object (py ''b.txt'') = Inr [0x48, 0x69, 0x0A, 0x0A, 0x59, 0x6F]"
  "demo_object (py ''bad.txt'') = Inr [0xFF]"
  "demo_object (py ''c.txt'') = Inr [0x43]"
  by (simp_all add: demo_object_def py_def)

lemma demo_run:
  "process_s3_text (demo_dispatcher_env [py ''a.txt'', py ''notes.md'', py ''b.txt''])
     demo_collection (py ''docs'') demo_dispatcher_state
   = (Inr (),
      \<lparr>queue = [\<lparr>task_doc_id = PStr (py ''b''), task_chunk_id = PStr (py ''chunk-0''),
                  task_text = PStr [0x48, 0x69]\<rparr>,
                 \<lparr>task_doc_id = PStr (py ''b''), task_chunk_id = PStr (py ''chunk-1''),
                  task_text = PStr [0x59, 0x6F]\<rparr>],
       fetched = [py ''b.txt''], uuids_drawn = 2\<rparr>)"
  by (simp add: process_s3_text_def demo_dispatcher_env_def demo_dispatcher_state_def
      demo_text_files demo_splitext demo_scroll demo_objects demo_parse_b Let_def py_def [of "''chunk-''"] py_def [of "''chunk-0''"] py_def [of "''chunk-1''"])

lemma demo_run_bad:
  "process_s3_text (demo_dispatcher_env [py ''b.txt'', py ''bad.txt'', py ''c.txt''])
     [] (py ''docs'') demo_dispatcher_state
   = (Inl UnicodeDecodeError,
      \<lparr>queue = [\<lparr>task_doc_id = PStr (py ''b''), task_chunk_id = PStr (py ''chunk-0''),
                  task_text = PStr [0x48, 0x69]\<rparr>,
                 \<lparr>task_doc_id = PStr (py ''b''), task_chunk_id = PStr (py ''chunk-1''),
                  task_text = PStr [0x59, 0x6F]\<rparr>],
       fetched = [py ''b.txt'', py ''bad.txt''], uuids_drawn = 2\<rparr>)"
  by (simp add: process_s3_text_def demo_dispatcher_env_def demo_dispatcher_state_def
      demo_text_files demo_splitext demo_scroll demo_objects demo_parse_b demo_parse_bad Let_def py_def [of "''chunk-''"] py_def [of "''chunk-0''"] py_def [of "''chunk-1''"])

lemma demo_run_c:
  "process_s3_text (demo_dispatcher_env [py ''c.txt''])
     [] (py ''docs'') demo_dispatcher_state
   = (Inr (),
      \<lparr>queue = [\<lparr>task_doc_id = PStr (py ''c''), task_chunk_id = PStr (py ''chunk-0''),
                  task_text = PStr [0x43]\<rparr>],
       fetched = [py ''c.txt''], uuids_drawn = 1\<rparr>)"
  by (simp add: process_s3_text_def demo_dispatcher_env_def demo_dispatcher_state_def
      demo_text_files demo_splitext demo_scroll demo_objects demo_parse_c Let_def py_def [of "''chunk-''"] py_def [of "''chunk-0''"] py_def [of "''chunk-1''"])

theorem dispatcher_skips_indexed_document_witness:
  "tasks_for (py ''a'')
     (new_tasks demo_dispatcher_state
        (snd (process_s3_text (demo_dispatcher_env [py ''a.txt'', py ''notes.md'', py ''b.txt''])
                demo_collection (py ''docs'') demo_dispatcher_state))) = []
   \<and> keys_for (py ''a'')
     (new_fetches demo_dispatcher_state
        (snd (process_s3_text (demo_dispatcher_env [py ''a.txt'', py ''notes.md'', py ''b.txt''])
                demo_collection (py ''docs'') demo_dispatcher_state))) = []
   \<and> map task_text
     (new_tasks demo_dispatcher_state
        (snd (process_s3_text (demo_dispatcher_env [py ''a.txt'', py ''notes.md'', py ''b.txt''])
                demo_collection (py ''docs'') demo_dispatcher_state)))
     = [PStr [0x48, 0x69], PStr [0x59, 0x6F]]"
proof -
  define p where "p = \<lparr>point_id = PStr (py ''p1''), vector = [],
       payload = [(py ''doc_id'', PStr (py ''a'')), (py ''text'', PStr (py ''A''))]\<rparr>"
  have m: "p \<in> set demo_collection" by (simp add: p_def demo_collection_def)
  have d: "map_of (payload p) (py ''doc_id'') = Some (PStr (py ''a''))" by (simp add: p_def)
  show ?thesis
    using dispatcher_skips_indexed_document [OF m d, of demo_dispatcher_state
        "demo_dispatcher_env [py ''a.txt'', py ''notes.md'', py ''b.txt'']" "py ''docs''"]
    unfolding demo_run
    by (simp add: new_tasks_def demo_dispatcher_state_def)
qed

lemma process_keys_append:
  "process_keys env coll b (pre @ rest) st =
     (case process_keys env coll b pre st of
        (Inl e, st') \<Rightarrow> (Inl e, st')
      | (Inr u, st') \<Rightarrow> process_keys env coll b rest st')"
proof (induction pre arbitrary: st)
  case Nil
  show ?case by simp
next
  case (Cons k pre)
  show ?case
    by (simp add: Cons.IH Let_def split: option.splits sum.splits prod.splits)
qed

text \<open>
  C3, as the code has it. The loop over the candidates runs inside one \<open>try\<close> whose handler
  re-raises. When the candidates before \<open>k\<close> were processed without error, \<open>k\<close> is not yet
  indexed, and fetching \<open>k\<close> or chunking its content fails with \<open>e\<close>, the run ends with \<open>e\<close>
  in the state reached after the fetch of \<open>k\<close>: the candidates after \<open>k\<close> are not processed.
\<close>

theorem dispatcher_failure_ends_run:
  assumes "list_objects_v2 env bucket_name = Inr keys"
    and "text_files keys = pre @ k # post"
    and "process_keys env coll bucket_name pre st = (Inr (), st1)"
    and "scroll_fault env (fst (splitext k)) = None"
    and "qdrant_scroll coll (fst (splitext k)) 1 = []"
    and "get_object env bucket_name k = Inl e
         \<or> (\<exists>c. get_object env bucket_name k = Inr c \<and> parse_text c = Inl e)"
  shows "process_s3_text env coll bucket_name st = (Inl e, st1\<lparr>fetched := fetched st1 @ [k]\<rparr>)"
proof -
  from assms(4,5,6)
  have "process_keys env coll bucket_name (k # post) st1 = (Inl e, st1\<lparr>fetched := fetched st1 @ [k]\<rparr>)"
    by (auto simp: Let_def)
  with assms(1,2,3) show ?thesis
    by (simp add: process_s3_text_def process_keys_append)
qed

theorem dispatcher_failure_ends_run_witness:
  "process_s3_text (demo_dispatcher_env [py ''b.txt'', py ''bad.txt'', py ''c.txt''])
     [] (py ''docs'') demo_dispatcher_state
   = (Inl UnicodeDecodeError,
      \<lparr>queue = [\<lparr>task_doc_id = PStr (py ''b''), task_chunk_id = PStr (py ''chunk-0''),
                  task_text = PStr [0x48, 0x69]\<rparr>,
                 \<lparr>task_doc_id = PStr (py ''b''), task_chunk_id = PStr (py ''chunk-1''),
                  task_text = PStr [0x59, 0x6F]\<rparr>],
       fetched = [py ''b.txt'', py ''bad.txt''], uuids_drawn = 2\<rparr>)"
proof -
  let ?env = "demo_dispatcher_env [py ''b.txt'', py ''bad.txt'', py ''c.txt'']"
  let ?st1 = "\<lparr>queue = [\<lparr>task_doc_id = PStr (py ''b''), task_chunk_id = PStr (py ''chunk-0''),
                  task_text = PStr [0x48, 0x69]\<rparr>,
                 \<lparr>task_doc_id = PStr (py ''b''), task_chunk_id = PStr (py ''chunk-1''),
                  task_text = PStr [0x59, 0x6F]\<rparr>],
       fetched = [py ''b.txt''], uuids_drawn = 2\<rparr>"
  have a1: "list_objects_v2 ?env (py ''docs'') = Inr [py ''b.txt'', py ''bad.txt'', py ''c.txt'']"
    by (simp add: demo_dispatcher_env_def)
  have a2: "text_files [py ''b.txt'', py ''bad.txt'', py ''c.txt'']
              = [py ''b.txt''] @ py ''bad.txt'' # [py ''c.txt'']"
    by (simp add: demo_text_files)
  have a3: "process_keys ?env [] (py ''docs'') [py ''b.txt''] demo_dispatcher_state = (Inr (), ?st1)"
    by (simp add: demo_dispatcher_env_def demo_dispatcher_state_def demo_splitext demo_scroll
        demo_objects demo_parse_b Let_def py_def [of "''chunk-''"] py_def [of "''chunk-0''"]
        py_def [of "''chunk-1''"])
  have a4: "scroll_fault ?env (fst (splitext (py ''bad.txt''))) = None"
    by (simp add: demo_dispatcher_env_def)
  have a5: "qdrant_scroll [] (fst (splitext (py ''bad.txt''))) 1 = []"
    by (simp add: demo_scroll)
  have a6: "get_object ?env (py ''docs'') (py ''bad.txt'') = Inl UnicodeDecodeError
         \<or> (\<exists>c. get_object ?env (py ''docs'') (py ''bad.txt'') = Inr c
                \<and> parse_text c = Inl UnicodeDecodeError)"
    by (simp add: demo_dispatcher_env_def demo_objects demo_parse_bad)
  show ?thesis
    using dispatcher_failure_ends_run [OF a1 a2 a3 a4 a5 a6] by simp
qed

text \<open>
  C3 as stated fails. In the bucket with the candidates \<open>b.txt\<close>, \<open>bad.txt\<close> and \<open>c.txt\<close>, where
  the content of \<open>bad.txt\<close> is the single byte 0xFF, the run ends with \<open>UnicodeDecodeError\<close>;
  \<open>c.txt\<close> is never fetched and no task is sent for it, although a run over \<open>c.txt\<close> alone
  sends one task.
\<close>

theorem dispatcher_failure_skips_rest_counterexample:
  "fst (process_s3_text (demo_dispatcher_env [py ''b.txt'', py ''bad.txt'', py ''c.txt''])
          [] (py ''docs'') demo_dispatcher_state) = Inl UnicodeDecodeError
   \<and> tasks_for (py ''c'')
        (queue (snd (process_s3_text (demo_dispatcher_env [py ''b.txt'', py ''bad.txt'', py ''c.txt''])
                       [] (py ''docs'') demo_dispatcher_state))) = []
   \<and> keys_for (py ''c'')
        (fetched (snd (process_s3_text (demo_dispatcher_env [py ''b.txt'', py ''bad.txt'', py ''c.txt''])
                         [] (py ''docs'') demo_dispatcher_state))) = []
   \<and> length (tasks_for (py ''c'')
        (queue (snd (process_s3_text (demo_dispatcher_env [py ''c.txt''])
                       [] (py ''docs'') demo_dispatcher_state)))) = 1"
  unfolding demo_run_bad demo_run_c
  by (simp add: tasks_for_def keys_for_def demo_splitext) (simp add: py_def)

section \<open>Properties of the worker\<close>

text \<open>
  C2. When the embedding model returns a vector whose length is not 384, the task fails, no
  point is handed to \<open>upsert\<close> and the collection is unchanged; with valid arguments the
  failure is the \<open>ValueError\<close> of line 82. Conversely, a task that hands a point to \<open>upsert\<close>
  or changes the collection has obtained a vector of length 384, which is the vector of the
  point written.
\<close>

theorem worker_rejects_wrong_dimension:
  "(\<forall>v. embed env (task_text t) = Inr v \<and> length v \<noteq> 384 \<longrightarrow>
      (\<exists>e. fst (store_pdf_content env t st) = Inl e)
      \<and> upsert_calls (snd (store_pdf_content env t st)) = upsert_calls st
      \<and> collection (snd (store_pdf_content env t st)) = collection st
      \<and> (has_len (task_text t) \<and> is_str (task_doc_id t) \<and> is_str (task_chunk_id t) \<longrightarrow>
           fst (store_pdf_content env t st)
             = Inl (ValueError ''Embedding vector length does not match expected 384'')))
   \<and> (upsert_calls (snd (store_pdf_content env t st)) \<noteq> upsert_calls st
        \<or> collection (snd (store_pdf_content env t st)) \<noteq> collection st \<longrightarrow>
      (\<exists>v. embed env (task_text t) = Inr v \<and> length v = 384
           \<and> upsert_calls (snd (store_pdf_content env t st))
               = upsert_calls st @ [\<lparr>point_id = task_chunk_id t, vector = v,
                    payload = [(py ''doc_id'', task_doc_id t), (py ''text'', task_text t)]\<rparr>]))"
  by (auto simp: store_pdf_content_def Let_def split: sum.splits option.splits)

theorem worker_rejects_wrong_dimension_witness:
  "store_pdf_content demo_worker_env
     \<lparr>task_doc_id = PStr (py ''d''), task_chunk_id = PStr (py ''c1''), task_text = PStr (py ''short'')\<rparr>
     demo_worker_state
   = (Inl (ValueError ''Embedding vector length does not match expected 384''),
      \<lparr>collection = [], embed_calls = [PStr (py ''short'')], upsert_calls = []\<rparr>)
   \<and> length (upsert_calls (snd (store_pdf_content demo_worker_env
     \<lparr>task_doc_id = PStr (py ''d''), task_chunk_id = PStr (py ''c1''), task_text = PStr (py ''long'')\<rparr>
     demo_worker_state))) = 1"
  using worker_rejects_wrong_dimension [of demo_worker_env
     "\<lparr>task_doc_id = PStr (py ''d''), task_chunk_id = PStr (py ''c1''), task_text = PStr (py ''short'')\<rparr>"
     demo_worker_state]
  by (simp add: store_pdf_content_def demo_worker_env_def demo_worker_state_def Let_def py_def)

text \<open>
  C4, as the code has it. The validation of lines 66 to 71 tests the type only. When
  \<open>doc_id\<close> or \<open>chunk_id\<close> is not a string the task fails before the embedding model is
  called and before anything is written: with \<open>ValueError\<close> when \<open>len(text)\<close> of line 63
  returns, with the \<open>TypeError\<close> of that line otherwise.
\<close>

theorem worker_rejects_non_strings:
  assumes "\<not> is_str (task_doc_id t) \<or> \<not> is_str (task_chunk_id t)"
  shows "(\<exists>e. fst (store_pdf_content env t st) = Inl e)
       \<and> snd (store_pdf_content env t st) = st
       \<and> (has_len (task_text t) \<longrightarrow>
            (\<exists>msg. fst (store_pdf_content env t st) = Inl (ValueError msg)))
       \<and> (\<not> has_len (task_text t) \<longrightarrow> fst (store_pdf_content env t st) = Inl TypeError)"
  using assms by (auto simp: store_pdf_content_def Let_def)

theorem worker_rejects_non_strings_witness:
  "store_pdf_content demo_worker_env
     \<lparr>task_doc_id = PInt 7, task_chunk_id = PStr (py ''c1''), task_text = PStr (py ''long'')\<rparr>
     demo_worker_state
   = (Inl (ValueError ''doc_id must be a string''), demo_worker_state)"
  using worker_rejects_non_strings [of
     "\<lparr>task_doc_id = PInt 7, task_chunk_id = PStr (py ''c1''), task_text = PStr (py ''long'')\<rparr>"
     demo_worker_env demo_worker_state]
  by (simp add: store_pdf_content_def Let_def)

text \<open>
  C4 as stated fails: the empty string is a string. A task whose \<open>doc_id\<close> is \<open>""\<close> passes the
  validation; its text is embedded and its point is written.
\<close>

theorem worker_accepts_empty_doc_id_counterexample:
  "store_pdf_content demo_worker_env
     \<lparr>task_doc_id = PStr [], task_chunk_id = PStr (py ''c1''), task_text = PStr (py ''long'')\<rparr>
     demo_worker_state
   = (Inr (),
      \<lparr>collection = [\<lparr>point_id = PStr (py ''c1''), vector = replicate 384 0,
                       payload = [(py ''doc_id'', PStr []), (py ''text'', PStr (py ''long''))]\<rparr>],
       embed_calls = [PStr (py ''long'')],
       upsert_calls = [\<lparr>point_id = PStr (py ''c1''), vector = replicate 384 0,
                       payload = [(py ''doc_id'', PStr []), (py ''text'', PStr (py ''long''))]\<rparr>]\<rparr>)"
  by (simp add: store_pdf_content_def demo_worker_env_def demo_worker_state_def Let_def
      qdrant_upsert_def py_def)

lemma upsert_one: "filter (\<lambda>q. point_id q = point_id p) (qdrant_upsert p coll) = [p]"
  by (simp add: qdrant_upsert_def)

lemma upsert_length:
  "length (filter (\<lambda>q. point_id q = point_id p) coll) = 1 \<Longrightarrow>
   length (qdrant_upsert p coll) = length coll"
proof -
  assume a: "length (filter (\<lambda>q. point_id q = point_id p) coll) = 1"
  have "length coll = length (filter (\<lambda>q. point_id q = point_id p) coll)
          + length (filter (\<lambda>q. point_id q \<noteq> point_id p) coll)"
    by (rule sum_length_filter_compl [symmetric])
  with a show ?thesis by (simp add: qdrant_upsert_def)
qed

lemma upsert_idem: "qdrant_upsert p (qdrant_upsert p coll) = qdrant_upsert p coll"
  by (simp add: qdrant_upsert_def)

lemma store_ok:
  assumes "store_pdf_content env t st = (Inr (), st')"
  shows "\<exists>v. embed env (task_text t) = Inr v \<and> length v = 384
     \<and> collection st' = qdrant_upsert \<lparr>point_id = task_chunk_id t, vector = v,
           payload = [(py ''doc_id'', task_doc_id t), (py ''text'', task_text t)]\<rparr> (collection st)"
  using assms
  by (auto simp: store_pdf_content_def Let_def split: sum.splits option.splits if_splits)

text \<open>
  C7. Two tasks with the same \<open>chunk_id\<close>, processed one after the other with success: the
  collection then holds exactly one point under that id, its payload and vector are those
  of the second task, and the second write has not changed the number of points. When
  the second task is the first one again, with the same embedding, the second write
  leaves the collection as it was.
\<close>

theorem worker_upsert_last_write_wins:
  assumes "store_pdf_content env1 t1 st = (Inr (), st1)"
    and "store_pdf_content env2 t2 st1 = (Inr (), st2)"
    and "task_chunk_id t2 = task_chunk_id t1"
  shows "(\<exists>v. embed env2 (task_text t2) = Inr v
            \<and> filter (\<lambda>q. point_id q = task_chunk_id t1) (collection st2)
                = [\<lparr>point_id = task_chunk_id t1, vector = v,
                    payload = [(py ''doc_id'', task_doc_id t2), (py ''text'', task_text t2)]\<rparr>])
       \<and> length (collection st2) = length (collection st1)
       \<and> (t2 = t1 \<and> embed env2 = embed env1 \<longrightarrow> collection st2 = collection st1)"
proof -
  from store_ok [OF assms(1)] obtain v1 where
    e1: "embed env1 (task_text t1) = Inr v1"
    and c1: "collection st1 = qdrant_upsert \<lparr>point_id = task_chunk_id t1, vector = v1,
           payload = [(py ''doc_id'', task_doc_id t1), (py ''text'', task_text t1)]\<rparr> (collection st)"
    by blast
  from store_ok [OF assms(2)] obtain v2 where
    e2: "embed env2 (task_text t2) = Inr v2"
    and c2: "collection st2 = qdrant_upsert \<lparr>point_id = task_chunk_id t2, vector = v2,
           payload = [(py ''doc_id'', task_doc_id t2), (py ''text'', task_text t2)]\<rparr> (collection st1)"
    by blast
  let ?p1 = "\<lparr>point_id = task_chunk_id t1, vector = v1,
           payload = [(py ''doc_id'', task_doc_id t1), (py ''text'', task_text t1)]\<rparr>"
  let ?p2 = "\<lparr>point_id = task_chunk_id t2, vector = v2,
           payload = [(py ''doc_id'', task_doc_id t2), (py ''text'', task_text t2)]\<rparr>"
  have one: "filter (\<lambda>q. point_id q = task_chunk_id t1) (collection st2) = [?p2]"
    using upsert_one [of ?p2 "collection st1"] c2 assms(3) by simp
  have "filter (\<lambda>q. point_id q = point_id ?p2) (collection st1) = [?p1]"
    using upsert_one [of ?p1 "collection st"] c1 assms(3) by simp
  then have "length (filter (\<lambda>q. point_id q = point_id ?p2) (collection st1)) = 1" by simp
  then have len: "length (collection st2) = length (collection st1)"
    unfolding c2 by (rule upsert_length)
  have same: "collection st2 = collection st1" if "t2 = t1" "embed env2 = embed env1"
  proof -
    from that e1 e2 have "v2 = v1" by simp
    with that c1 c2 show ?thesis by (simp add: upsert_idem)
  qed
  from one e2 assms(3) len same show ?thesis by auto
qed

theorem worker_upsert_last_write_wins_witness:
  "collection (snd (store_pdf_content demo_worker_env
      \<lparr>task_doc_id = PStr (py ''d''), task_chunk_id = PStr (py ''c1''), task_text = PStr (py ''new'')\<rparr>
      (snd (store_pdf_content demo_worker_env
         \<lparr>task_doc_id = PStr (py ''d''), task_chunk_id = PStr (py ''c1''), task_text = PStr (py ''old'')\<rparr>
         demo_worker_state))))
   = [\<lparr>point_id = PStr (py ''c1''), vector = replicate 384 0,
       payload = [(py ''doc_id'', PStr (py ''d'')), (py ''text'', PStr (py ''new''))]\<rparr>]"
proof -
  let ?t1 = "\<lparr>task_doc_id = PStr (py ''d''), task_chunk_id = PStr (py ''c1''), task_text = PStr (py ''old'')\<rparr>"
  let ?t2 = "\<lparr>task_doc_id = PStr (py ''d''), task_chunk_id = PStr (py ''c1''), task_text = PStr (py ''new'')\<rparr>"
  let ?p1 = "\<lparr>point_id = PStr (py ''c1''), vector = replicate 384 (0::real),
       payload = [(py ''doc_id'', PStr (py ''d'')), (py ''text'', PStr (py ''old''))]\<rparr>"
  let ?p2 = "\<lparr>point_id = PStr (py ''c1''), vector = replicate 384 (0::real),
       payload = [(py ''doc_id'', PStr (py ''d'')), (py ''text'', PStr (py ''new''))]\<rparr>"
  let ?st1 = "\<lparr>collection = [?p1], embed_calls = [PStr (py ''old'')], upsert_calls = [?p1]\<rparr>"
  let ?st2 = "\<lparr>collection = [?p2], embed_calls = [PStr (py ''old''), PStr (py ''new'')],
               upsert_calls = [?p1, ?p2]\<rparr>"
  have r1: "store_pdf_content demo_worker_env ?t1 demo_worker_state = (Inr (), ?st1)"
    by (simp add: store_pdf_content_def demo_worker_env_def demo_worker_state_def Let_def
        qdrant_upsert_def py_def)
  have r2: "store_pdf_content demo_worker_env ?t2 ?st1 = (Inr (), ?st2)"
    by (simp add: store_pdf_content_def demo_worker_env_def Let_def qdrant_upsert_def py_def)
  have same: "task_chunk_id ?t2 = task_chunk_id ?t1" by simp
  show ?thesis
    using worker_upsert_last_write_wins [OF r1 r2 same] unfolding r1
    by (simp add: r2)
qed

section \<open>Properties of the query service\<close>

lemma key_names_differ: "py ''query_text'' \<noteq> py ''top_n''"
  by (simp add: py_def)

lemma map_of_Some_key: "map_of d k = Some v \<Longrightarrow> k \<in> set (map fst d) \<and> d \<noteq> []"
  by (induction d) (auto split: if_splits)

lemma search_body_dict:
  assumes "map_of d (py ''query_text'') = Some qv" and "map_of d (py ''top_n'') = Some tv"
  shows "search_body env (Inr (PDict d)) = check_fields env qv tv"
  using assms map_of_Some_key [OF assms(1)] map_of_Some_key [OF assms(2)]
  by (simp add: search_body_def py_in_def py_getitem_def)

lemma search_body_missing:
  assumes "map_of d (py ''query_text'') = None \<or> map_of d (py ''top_n'') = None"
  shows "search_body env (Inr (PDict d))
           = (Inr (bad_request ''Missing query_text or top_n in request body''), [])"
proof -
  from assms have "py ''query_text'' \<notin> set (map fst d) \<or> py ''top_n'' \<notin> set (map fst d)"
    by (auto simp: map_of_eq_None_iff)
  then show ?thesis by (auto simp: search_body_def py_in_def)
qed

lemma check_fields_invalid:
  assumes "py_int (int_of_str env) tv = Inr n" and "n \<le> 0 \<or> (\<forall>q. qv = PStr q \<longrightarrow> blank q)"
  shows "\<exists>msg. check_fields env qv tv = (Inr (bad_request msg), [])"
  using assms by (cases qv) (auto simp: check_fields_def py_strip_Nil_iff)

lemma check_fields_raises:
  assumes "py_int (int_of_str env) tv = Inl e"
  shows "check_fields env qv tv = (Inl e, [])"
  using assms by (simp add: check_fields_def)

text \<open>
  C6, as the code has it. For a request body that is a JSON object: when a field is missing,
  or when \<open>int(top_n)\<close> returns and either its value is at most 0 or \<open>query_text\<close> is not a
  string with a character other than whitespace, the response is 400 and the embedding
  model is not called. When \<open>int(top_n)\<close> raises, which line 40 lets happen before
  \<open>query_text\<close> is looked at, the response is 500, again without a call to the model.
\<close>

theorem search_rejects_invalid_request:
  "(map_of d (py ''query_text'') = None \<or> map_of d (py ''top_n'') = None \<longrightarrow>
      status (fst (search env (Inr (PDict d)))) = 400
      \<and> embeds (snd (search env (Inr (PDict d)))) = [])
   \<and> (\<forall>qv tv n. map_of d (py ''query_text'') = Some qv \<and> map_of d (py ''top_n'') = Some tv
          \<and> py_int (int_of_str env) tv = Inr n \<and> (n \<le> 0 \<or> (\<forall>q. qv = PStr q \<longrightarrow> blank q)) \<longrightarrow>
      status (fst (search env (Inr (PDict d)))) = 400
      \<and> embeds (snd (search env (Inr (PDict d)))) = [])
   \<and> (\<forall>qv tv e. map_of d (py ''query_text'') = Some qv \<and> map_of d (py ''top_n'') = Some tv
          \<and> py_int (int_of_str env) tv = Inl e \<longrightarrow>
      fst (search env (Inr (PDict d))) = \<lparr>status = 500, body = ExceptionBody e\<rparr>
      \<and> embeds (snd (search env (Inr (PDict d)))) = [])"
proof (intro conjI allI impI)
  assume "map_of d (py ''query_text'') = None \<or> map_of d (py ''top_n'') = None"
  then have "search_body env (Inr (PDict d))
           = (Inr (bad_request ''Missing query_text or top_n in request body''), [])"
    by (rule search_body_missing)
  then show "status (fst (search env (Inr (PDict d)))) = 400"
    and "embeds (snd (search env (Inr (PDict d)))) = []"
    by (simp_all add: search_def bad_request_def embeds_def)
next
  fix qv tv n
  assume a: "map_of d (py ''query_text'') = Some qv \<and> map_of d (py ''top_n'') = Some tv
          \<and> py_int (int_of_str env) tv = Inr n \<and> (n \<le> 0 \<or> (\<forall>q. qv = PStr q \<longrightarrow> blank q))"
  then obtain msg where "check_fields env qv tv = (Inr (bad_request msg), [])"
    using check_fields_invalid [of env tv n qv] by blast
  with a have "search_body env (Inr (PDict d)) = (Inr (bad_request msg), [])"
    by (simp add: search_body_dict)
  then show "status (fst (search env (Inr (PDict d)))) = 400"
    and "embeds (snd (search env (Inr (PDict d)))) = []"
    by (simp_all add: search_def bad_request_def embeds_def)
next
  fix qv tv e
  assume a: "map_of d (py ''query_text'') = Some qv \<and> map_of d (py ''top_n'') = Some tv
          \<and> py_int (int_of_str env) tv = Inl e"
  then have "search_body env (Inr (PDict d)) = (Inl e, [])"
    by (simp add: search_body_dict check_fields_raises)
  then show "fst (search env (Inr (PDict d))) = \<lparr>status = 500, body = ExceptionBody e\<rparr>"
    and "embeds (snd (search env (Inr (PDict d)))) = []"
    by (simp_all add: search_def embeds_def)
qed

theorem search_rejects_invalid_request_witness:
  "search demo_query_env
     (Inr (PDict [(py ''query_text'', PStr [0x20, 0x0A]), (py ''top_n'', PInt 5)]))
     = (bad_request ''query_text must be a non-empty string'', [])
   \<and> search demo_query_env
     (Inr (PDict [(py ''query_text'', PStr (py ''hi'')), (py ''top_n'', PInt 0)]))
     = (bad_request ''top_n must be a positive integer'', [])
   \<and> search demo_query_env (Inr (PDict [(py ''query_text'', PStr (py ''hi''))]))
     = (bad_request ''Missing query_text or top_n in request body'', [])
   \<and> search demo_query_env
     (Inr (PDict [(py ''query_text'', PStr (py ''hi'')), (py ''top_n'', PStr (py ''five''))]))
     = (\<lparr>status = 500,
         body = ExceptionBody (ValueError ''invalid literal for int() with base 10'')\<rparr>, [])"
  using search_rejects_invalid_request [of
      "[(py ''query_text'', PStr [0x20, 0x0A]), (py ''top_n'', PInt 5)]" demo_query_env]
  by (simp add: search_def search_body_def check_fields_def py_in_def py_getitem_def py_int_def
      demo_query_env_def py_strip_def is_space_def py_def)

text \<open>
  C6 as stated fails: the request \<open>{"query_text": "", "top_n": null}\<close> has an empty
  \<open>query_text\<close>, and the response is 500 with the \<open>TypeError\<close> of \<open>int(None)\<close>, not 400.
\<close>

theorem search_empty_query_bad_top_n_counterexample:
  "search demo_query_env (Inr (PDict [(py ''query_text'', PStr []), (py ''top_n'', PNone)]))
     = (\<lparr>status = 500, body = ExceptionBody TypeError\<rparr>, [])"
  by (simp add: search_def search_body_def check_fields_def py_in_def py_getitem_def py_int_def
      py_def)


lemma check_fields_accepts:
  assumes "py_int (int_of_str env) tv = Inr n" and "0 < n" and "\<not> blank q"
  shows "check_fields env (PStr q) tv = run_query env q n"
  using assms by (simp add: check_fields_def py_strip_Nil_iff)

lemma check_fields_converted:
  assumes "py_int (int_of_str env) tv = Inr n"
  shows "check_fields env qv tv = check_fields env qv (PInt n)"
  using assms by (simp add: check_fields_def py_int_def)

lemma run_query_calls:
  assumes "embed_query env q = Inr v" and "length v = 384"
  shows "snd (run_query env q n) = [EmbedCall q, SearchCall v n]
       \<and> (\<forall>r. fst (run_query env q n) = Inr r \<longrightarrow> status r = 200)"
  using assms by (simp add: run_query_def split: sum.splits)

text \<open>
  C9, as the code has it. For a request body that is a JSON object with both fields: when
  \<open>int(top_n)\<close> returns \<open>n\<close>, the response and the calls made are those of the same request
  with the integer \<open>n\<close> as its \<open>top_n\<close>, whatever the type of the value sent. So the type is
  no ground for a 400: when \<open>n\<close> is positive and \<open>query_text\<close> is a string that is not
  blank, the request is not answered with 400 and the vector store is searched with the
  limit \<open>n\<close>. A float is converted by truncation towards zero. When \<open>int(top_n)\<close> raises,
  the response is 500 with that exception.
\<close>

theorem search_converts_top_n:
  assumes "map_of d (py ''query_text'') = Some qv" and "map_of d (py ''top_n'') = Some tv"
  shows "(\<forall>n d'. py_int (int_of_str env) tv = Inr n
            \<and> map_of d' = (map_of d)(py ''top_n'' \<mapsto> PInt n) \<longrightarrow>
          search env (Inr (PDict d)) = search env (Inr (PDict d')))
       \<and> (\<forall>n q v. py_int (int_of_str env) tv = Inr n \<and> 0 < n \<and> qv = PStr q \<and> \<not> blank q
            \<and> embed_query env q = Inr v \<and> length v = 384 \<longrightarrow>
          snd (search env (Inr (PDict d))) = [EmbedCall q, SearchCall v n]
          \<and> status (fst (search env (Inr (PDict d)))) \<noteq> 400)
       \<and> (\<forall>r. tv = PFloat (Fin r) \<longrightarrow>
          py_int (int_of_str env) tv = Inr (if 0 \<le> r then \<lfloor>r\<rfloor> else \<lceil>r\<rceil>))
       \<and> (\<forall>e. py_int (int_of_str env) tv = Inl e \<longrightarrow>
          search env (Inr (PDict d)) = (\<lparr>status = 500, body = ExceptionBody e\<rparr>, []))"
proof (intro conjI allI impI)
  fix n d'
  assume a: "py_int (int_of_str env) tv = Inr n
            \<and> map_of d' = (map_of d)(py ''top_n'' \<mapsto> PInt n)"
  then have q': "map_of d' (py ''query_text'') = Some qv"
    and t': "map_of d' (py ''top_n'') = Some (PInt n)"
    using assms(1) key_names_differ by simp_all
  have "search_body env (Inr (PDict d)) = check_fields env qv tv"
    using assms by (rule search_body_dict)
  also have "\<dots> = check_fields env qv (PInt n)"
    using a by (simp add: check_fields_converted)
  also have "\<dots> = search_body env (Inr (PDict d'))"
    using q' t' by (simp add: search_body_dict)
  finally show "search env (Inr (PDict d)) = search env (Inr (PDict d'))"
    by (simp add: search_def)
next
  fix n q v
  assume a: "py_int (int_of_str env) tv = Inr n \<and> 0 < n \<and> qv = PStr q \<and> \<not> blank q
            \<and> embed_query env q = Inr v \<and> length v = 384"
  with assms have sb: "search_body env (Inr (PDict d)) = run_query env q n"
    by (simp add: search_body_dict check_fields_accepts)
  from a run_query_calls [of env q v n]
  have c: "snd (run_query env q n) = [EmbedCall q, SearchCall v n]"
    and s: "\<forall>r. fst (run_query env q n) = Inr r \<longrightarrow> status r = 200"
    by simp_all
  obtain res evs where rq: "run_query env q n = (res, evs)" by (cases "run_query env q n")
  with c s sb show "snd (search env (Inr (PDict d))) = [EmbedCall q, SearchCall v n]"
    and "status (fst (search env (Inr (PDict d)))) \<noteq> 400"
    by (cases res; simp add: search_def)+
next
  fix r
  assume "tv = PFloat (Fin r)"
  then show "py_int (int_of_str env) tv = Inr (if 0 \<le> r then \<lfloor>r\<rfloor> else \<lceil>r\<rceil>)"
    by (simp add: py_int_def)
next
  fix e
  assume "py_int (int_of_str env) tv = Inl e"
  with assms show "search env (Inr (PDict d)) = (\<lparr>status = 500, body = ExceptionBody e\<rparr>, [])"
    by (simp add: search_def search_body_dict check_fields_raises)
qed

lemma demo_formatted:
  "format_results demo_hits
     = Inr [PDict [(py ''doc_id'', PStr (py ''d'')), (py ''chunk_id'', PStr (py ''c1'')),
                   (py ''text'', PStr (py ''hello'')), (py ''score'', PFloat (Fin 0.9))],
            PDict [(py ''doc_id'', PStr []), (py ''chunk_id'', PInt 7),
                   (py ''text'', PNone), (py ''score'', PFloat (Fin 0.5))],
            PDict [(py ''doc_id'', PStr []), (py ''chunk_id'', PStr (py ''c3'')),
                   (py ''text'', PStr []), (py ''score'', PFloat (Fin 0))]]"
  by (simp add: demo_hits_def format_result_def dict_get_def py_def)

lemma demo_search_str:
  "search demo_query_env
     (Inr (PDict [(py ''query_text'', PStr (py ''hi'')), (py ''top_n'', PStr (py ''5''))]))
   = (\<lparr>status = 200,
       body = ResultsBody
         [PDict [(py ''doc_id'', PStr (py ''d'')), (py ''chunk_id'', PStr (py ''c1'')),
                 (py ''text'', PStr (py ''hello'')), (py ''score'', PFloat (Fin 0.9))],
          PDict [(py ''doc_id'', PStr []), (py ''chunk_id'', PInt 7),
                 (py ''text'', PNone), (py ''score'', PFloat (Fin 0.5))],
          PDict [(py ''doc_id'', PStr []), (py ''chunk_id'', PStr (py ''c3'')),
                 (py ''text'', PStr []), (py ''score'', PFloat (Fin 0))]]\<rparr>,
      [EmbedCall (py ''hi''), SearchCall (replicate 384 0) 5])"
proof -
  have k: "py ''query_text'' \<noteq> py ''top_n''" "py ''top_n'' \<noteq> py ''query_text''"
    using key_names_differ by auto
  have s: "py_strip (py ''hi'') \<noteq> []" by (simp add: py_strip_def is_space_def py_def)
  have t: "take 5 demo_hits = demo_hits" by (simp add: demo_hits_def)
  show ?thesis
    by (simp add: search_def search_body_def check_fields_def run_query_def py_in_def
        py_getitem_def py_int_def demo_query_env_def k s t demo_formatted)
qed

theorem search_converts_top_n_witness:
  "snd (search demo_query_env
     (Inr (PDict [(py ''query_text'', PStr (py ''hi'')), (py ''top_n'', PStr (py ''5''))])))
     = [EmbedCall (py ''hi''), SearchCall (replicate 384 0) 5]
   \<and> status (fst (search demo_query_env
     (Inr (PDict [(py ''query_text'', PStr (py ''hi'')), (py ''top_n'', PStr (py ''5''))]))))
     = 200
   \<and> search demo_query_env
     (Inr (PDict [(py ''query_text'', PStr (py ''hi'')), (py ''top_n'', PStr (py ''5''))]))
     = search demo_query_env
     (Inr (PDict [(py ''query_text'', PStr (py ''hi'')), (py ''top_n'', PInt 5)]))
   \<and> py_int (int_of_str demo_query_env) (PFloat (Fin 3.7)) = Inr 3"
proof -
  let ?d = "[(py ''query_text'', PStr (py ''hi'')), (py ''top_n'', PStr (py ''5''))]"
  let ?d' = "[(py ''query_text'', PStr (py ''hi'')), (py ''top_n'', PInt 5)]"
  have k: "py ''query_text'' \<noteq> py ''top_n''" by (rule key_names_differ)
  have q: "map_of ?d (py ''query_text'') = Some (PStr (py ''hi''))" by simp
  have t: "map_of ?d (py ''top_n'') = Some (PStr (py ''5''))" using k by simp
  have i: "py_int (int_of_str demo_query_env) (PStr (py ''5'')) = Inr 5"
    by (simp add: py_int_def demo_query_env_def)
  have m: "map_of ?d' = (map_of ?d)(py ''top_n'' \<mapsto> PInt 5)"
    using k by (auto simp: fun_eq_iff)
  have f: "py_int (int_of_str demo_query_env) (PFloat (Fin 3.7)) = Inr 3"
    by (simp add: py_int_def)
  from search_converts_top_n [OF q t, of demo_query_env] i m
  have "search demo_query_env (Inr (PDict ?d)) = search demo_query_env (Inr (PDict ?d'))"
    by blast
  then have eq: "search demo_query_env (Inr (PDict ?d')) = search demo_query_env (Inr (PDict ?d))"
    by (rule sym)
  from f show ?thesis by (simp add: eq demo_search_str)
qed

text \<open>
  C9 as stated fails where the converted value is not positive: the float 0.5 is
  convertible, \<open>int(0.5)\<close> is 0, and the request is answered with the 400 of line 45.
\<close>

theorem search_float_below_one_counterexample:
  "search demo_query_env
     (Inr (PDict [(py ''query_text'', PStr (py ''hi'')), (py ''top_n'', PFloat (Fin 0.5))]))
     = (bad_request ''top_n must be a positive integer'', [])"
proof -
  have k: "py ''query_text'' \<noteq> py ''top_n''" "py ''top_n'' \<noteq> py ''query_text''"
    using key_names_differ by auto
  have s: "py_strip (py ''hi'') \<noteq> []" by (simp add: py_strip_def is_space_def py_def)
  show ?thesis
    by (simp add: search_def search_body_def check_fields_def py_in_def py_getitem_def
        py_int_def k s)
qed

lemma format_results_entries:
  "format_results rs = Inr entries \<Longrightarrow>
   length entries = length rs
   \<and> (\<forall>i<length rs. \<exists>pl. sp_payload (rs ! i) = Some pl
        \<and> entries ! i =
            PDict [(py ''doc_id'', case map_of pl (py ''doc_id'') of None \<Rightarrow> PStr [] | Some x \<Rightarrow> x),
                   (py ''chunk_id'', sp_id (rs ! i)),
                   (py ''text'', case map_of pl (py ''text'') of None \<Rightarrow> PStr [] | Some x \<Rightarrow> x),
                   (py ''score'', PFloat (sp_score (rs ! i)))])"
proof (induction rs arbitrary: entries)
  case Nil
  then show ?case by simp
next
  case (Cons r rs)
  from Cons.prems obtain x xs where
    fr: "format_result r = Inr x" and frs: "format_results rs = Inr xs" and e: "entries = x # xs"
    by (auto split: sum.splits)
  from fr obtain pl where pl: "sp_payload r = Some pl"
    and x: "x = PDict [(py ''doc_id'', case map_of pl (py ''doc_id'') of None \<Rightarrow> PStr [] | Some x \<Rightarrow> x),
                   (py ''chunk_id'', sp_id r),
                   (py ''text'', case map_of pl (py ''text'') of None \<Rightarrow> PStr [] | Some x \<Rightarrow> x),
                   (py ''score'', PFloat (sp_score r))]"
    by (auto simp: format_result_def dict_get_def split: option.splits)
  from Cons.IH [OF frs] have len: "length xs = length rs"
    and ih: "\<forall>i<length rs. \<exists>pl. sp_payload (rs ! i) = Some pl
        \<and> xs ! i =
            PDict [(py ''doc_id'', case map_of pl (py ''doc_id'') of None \<Rightarrow> PStr [] | Some x \<Rightarrow> x),
                   (py ''chunk_id'', sp_id (rs ! i)),
                   (py ''text'', case map_of pl (py ''text'') of None \<Rightarrow> PStr [] | Some x \<Rightarrow> x),
                   (py ''score'', PFloat (sp_score (rs ! i)))]"
    by simp_all
  show ?case
  proof (intro conjI allI impI)
    show "length entries = length (r # rs)" using e len by simp
  next
    fix i
    assume "i < length (r # rs)"
    then show "\<exists>pl. sp_payload ((r # rs) ! i) = Some pl
        \<and> entries ! i =
            PDict [(py ''doc_id'', case map_of pl (py ''doc_id'') of None \<Rightarrow> PStr [] | Some x \<Rightarrow> x),
                   (py ''chunk_id'', sp_id ((r # rs) ! i)),
                   (py ''text'', case map_of pl (py ''text'') of None \<Rightarrow> PStr [] | Some x \<Rightarrow> x),
                   (py ''score'', PFloat (sp_score ((r # rs) ! i)))]"
      using pl x ih e by (cases i) simp_all
  qed
qed

lemma run_query_200:
  assumes "run_query env q n = (Inr r, evs)" and "status r = 200"
  shows "\<exists>v rs entries. qdrant_search env v n = Inr rs \<and> format_results rs = Inr entries
            \<and> body r = ResultsBody entries"
  using assms by (fastforce simp: run_query_def split: sum.splits if_splits)

lemma check_fields_200:
  assumes "check_fields env qv tv = (Inr r, evs)" and "status r = 200"
  shows "\<exists>q n. run_query env q n = (Inr r, evs)"
  using assms
  by (cases qv) (auto simp: check_fields_def bad_request_def split: sum.splits if_splits)

lemma search_body_200:
  assumes "search_body env request = (Inr r, evs)" and "status r = 200"
  shows "\<exists>qv tv. check_fields env qv tv = (Inr r, evs)"
  using assms
  by (auto simp: search_body_def bad_request_def split: sum.splits if_splits)

lemma format_results_total:
  "map sp_payload rs = map Some pls \<Longrightarrow>
   format_results rs = Inr (map (\<lambda>(r, pl). PDict [(py ''doc_id'',
                              case map_of pl (py ''doc_id'') of None \<Rightarrow> PStr [] | Some x \<Rightarrow> x),
                           (py ''chunk_id'', sp_id r),
                           (py ''text'',
                              case map_of pl (py ''text'') of None \<Rightarrow> PStr [] | Some x \<Rightarrow> x),
                           (py ''score'', PFloat (sp_score r))]) (zip rs pls))"
proof (induction rs arbitrary: pls)
  case Nil
  then show ?case by simp
next
  case (Cons r rs)
  from Cons.prems obtain pl pls' where p: "pls = pl # pls'" and r: "sp_payload r = Some pl"
    and rest: "map sp_payload rs = map Some pls'"
    by (cases pls) auto
  from Cons.IH [OF rest] r p show ?case
    by (simp add: format_result_def dict_get_def)
qed

text \<open>
  C10. A valid request (both fields, a \<open>query_text\<close> that is not blank, a \<open>top_n\<close> that converts
  to a positive number) whose embedding has 384 entries and whose hits all carry a payload
  is answered with 200, whatever keys the payloads hold: the body is the list with one
  entry per hit, in the order of the hits. Each entry is the dictionary with exactly the
  keys \<open>doc_id\<close>, \<open>chunk_id\<close>, \<open>text\<close> and \<open>score\<close>, in which \<open>chunk_id\<close> is the id of the hit,
  \<open>score\<close> is its score as a float, and \<open>doc_id\<close> and \<open>text\<close> are the values of the payload
  under these keys, or the empty string where the payload has no such key; a missing key
  raises nothing. Conversely, every response with status 200, to any request, has a body of
  this form.
\<close>

theorem search_entries_have_four_fields:
  "(\<forall>q tv n v rs pls.
      map_of d (py ''query_text'') = Some (PStr q) \<and> \<not> blank q
      \<and> map_of d (py ''top_n'') = Some tv \<and> py_int (int_of_str env) tv = Inr n \<and> 0 < n
      \<and> embed_query env q = Inr v \<and> length v = 384
      \<and> qdrant_search env v n = Inr rs \<and> map sp_payload rs = map Some pls \<longrightarrow>
      search env (Inr (PDict d))
        = (\<lparr>status = 200,
            body = ResultsBody (map (\<lambda>(r, pl). PDict [(py ''doc_id'',
                              case map_of pl (py ''doc_id'') of None \<Rightarrow> PStr [] | Some x \<Rightarrow> x),
                           (py ''chunk_id'', sp_id r),
                           (py ''text'',
                              case map_of pl (py ''text'') of None \<Rightarrow> PStr [] | Some x \<Rightarrow> x),
                           (py ''score'', PFloat (sp_score r))]) (zip rs pls))\<rparr>,
           [EmbedCall q, SearchCall v n]))
   \<and> (\<forall>resp evs. search env request = (resp, evs) \<and> status resp = 200 \<longrightarrow>
        (\<exists>v n rs entries. qdrant_search env v n = Inr rs \<and> body resp = ResultsBody entries
           \<and> length entries = length rs
           \<and> (\<forall>i<length rs. \<exists>pl. sp_payload (rs ! i) = Some pl
                \<and> entries ! i = PDict [(py ''doc_id'',
                              case map_of pl (py ''doc_id'') of None \<Rightarrow> PStr [] | Some x \<Rightarrow> x),
                           (py ''chunk_id'', sp_id (rs ! i)),
                           (py ''text'',
                              case map_of pl (py ''text'') of None \<Rightarrow> PStr [] | Some x \<Rightarrow> x),
                           (py ''score'', PFloat (sp_score (rs ! i)))])))"
proof (intro conjI allI impI)
  fix q tv n v rs pls
  assume h: "map_of d (py ''query_text'') = Some (PStr q) \<and> \<not> blank q
      \<and> map_of d (py ''top_n'') = Some tv \<and> py_int (int_of_str env) tv = Inr n \<and> 0 < n
      \<and> embed_query env q = Inr v \<and> length v = 384
      \<and> qdrant_search env v n = Inr rs \<and> map sp_payload rs = map Some pls"
  then have "search_body env (Inr (PDict d)) = check_fields env (PStr q) tv"
    by (simp add: search_body_dict)
  also from h have "\<dots> = run_query env q n"
    by (simp add: check_fields_accepts)
  also from h have "\<dots> = (Inr \<lparr>status = 200,
            body = ResultsBody (map (\<lambda>(r, pl). PDict [(py ''doc_id'',
                              case map_of pl (py ''doc_id'') of None \<Rightarrow> PStr [] | Some x \<Rightarrow> x),
                           (py ''chunk_id'', sp_id r),
                           (py ''text'',
                              case map_of pl (py ''text'') of None \<Rightarrow> PStr [] | Some x \<Rightarrow> x),
                           (py ''score'', PFloat (sp_score r))]) (zip rs pls))\<rparr>,
           [EmbedCall q, SearchCall v n])"
    by (simp add: run_query_def format_results_total)
  finally show "search env (Inr (PDict d))
        = (\<lparr>status = 200,
            body = ResultsBody (map (\<lambda>(r, pl). PDict [(py ''doc_id'',
                              case map_of pl (py ''doc_id'') of None \<Rightarrow> PStr [] | Some x \<Rightarrow> x),
                           (py ''chunk_id'', sp_id r),
                           (py ''text'',
                              case map_of pl (py ''text'') of None \<Rightarrow> PStr [] | Some x \<Rightarrow> x),
                           (py ''score'', PFloat (sp_score r))]) (zip rs pls))\<rparr>,
           [EmbedCall q, SearchCall v n])"
    by (simp add: search_def)
next
  fix resp evs
  assume a: "search env request = (resp, evs) \<and> status resp = 200"
  then have s200: "status resp = 200" by simp
  from a have "search_body env request = (Inr resp, evs)"
    by (auto simp: search_def split: prod.splits sum.splits)
  from search_body_200 [OF this s200] obtain qv tv where
    "check_fields env qv tv = (Inr resp, evs)" by blast
  from check_fields_200 [OF this s200] obtain q n where
    "run_query env q n = (Inr resp, evs)" by blast
  from run_query_200 [OF this s200] obtain v rs entries where
    s: "qdrant_search env v n = Inr rs" and f: "format_results rs = Inr entries"
    and b: "body resp = ResultsBody entries" by blast
  from format_results_entries [OF f] s b
  show "\<exists>v n rs entries. qdrant_search env v n = Inr rs \<and> body resp = ResultsBody entries
           \<and> length entries = length rs
           \<and> (\<forall>i<length rs. \<exists>pl. sp_payload (rs ! i) = Some pl
                \<and> entries ! i = PDict [(py ''doc_id'',
                              case map_of pl (py ''doc_id'') of None \<Rightarrow> PStr [] | Some x \<Rightarrow> x),
                           (py ''chunk_id'', sp_id (rs ! i)),
                           (py ''text'',
                              case map_of pl (py ''text'') of None \<Rightarrow> PStr [] | Some x \<Rightarrow> x),
                           (py ''score'', PFloat (sp_score (rs ! i)))])"
    by blast
qed

theorem search_entries_have_four_fields_witness:
  "search demo_query_env
     (Inr (PDict [(py ''query_text'', PStr (py ''hi'')), (py ''top_n'', PStr (py ''5''))]))
   = (\<lparr>status = 200,
       body = ResultsBody
         [PDict [(py ''doc_id'', PStr (py ''d'')), (py ''chunk_id'', PStr (py ''c1'')),
                 (py ''text'', PStr (py ''hello'')), (py ''score'', PFloat (Fin 0.9))],
          PDict [(py ''doc_id'', PStr []), (py ''chunk_id'', PInt 7),
                 (py ''text'', PNone), (py ''score'', PFloat (Fin 0.5))],
          PDict [(py ''doc_id'', PStr []), (py ''chunk_id'', PStr (py ''c3'')),
                 (py ''text'', PStr []), (py ''score'', PFloat (Fin 0))]]\<rparr>,
      [EmbedCall (py ''hi''), SearchCall (replicate 384 0) 5])"
proof -
  let ?d = "[(py ''query_text'', PStr (py ''hi'')), (py ''top_n'', PStr (py ''5''))]"
  let ?pls = "[[(py ''doc_id'', PStr (py ''d'')), (py ''text'', PStr (py ''hello''))],
               [(py ''text'', PNone)], []]"
  have k: "py ''query_text'' \<noteq> py ''top_n''" "py ''doc_id'' \<noteq> py ''text''"
    "py ''text'' \<noteq> py ''doc_id''"
    by (simp_all add: py_def)
  have h: "map_of ?d (py ''query_text'') = Some (PStr (py ''hi'')) \<and> \<not> blank (py ''hi'')
      \<and> map_of ?d (py ''top_n'') = Some (PStr (py ''5''))
      \<and> py_int (int_of_str demo_query_env) (PStr (py ''5'')) = Inr 5 \<and> (0::int) < 5
      \<and> embed_query demo_query_env (py ''hi'') = Inr (replicate 384 0)
      \<and> length (replicate 384 (0::real)) = 384
      \<and> qdrant_search demo_query_env (replicate 384 0) 5 = Inr demo_hits
      \<and> map sp_payload demo_hits = map Some ?pls"
    using k(1)
    by (simp add: py_int_def demo_query_env_def demo_hits_def blank_def is_space_def
        py_def [of "''hi''"])
  from search_entries_have_four_fields [of ?d demo_query_env, THEN conjunct1, rule_format, OF h]
  show ?thesis
    using k by (simp add: demo_hits_def)
qed

end
